theory Spec2Isabelle
  imports Complex_Main
begin

section \<open>Elliott-wave backtester: data model\<close>

text \<open>
  The embedding follows \<^verbatim>\<open>Ur-EW-Code_backup_2025-09-08.py\<close>. Prices, indicator values and
  probabilities are Python floats in the source; they are modelled as \<^typ>\<open>real\<close>, so rounding,
  infinities and NaN are outside the model, except where the source tests for NaN itself
  (a volatility value that may be missing is a \<^typ>\<open>real option\<close>, \<^const>\<open>None\<close> standing for NaN).
  Exceptions of the source are values of \<open>py_error\<close>.
\<close>

datatype py_error = IndexError | ZeroDivisionError | ValueError

datatype Dir = UP | DOWN

datatype kind = H | L

record Pivot =
  idx :: nat
  price :: real
  kind :: kind

record Impulse =
  direction :: Dir
  points :: "Pivot list"

subsection \<open>ElliottEngine.zigzag\<close>

text \<open>
  \<^verbatim>\<open>_thr(base, atr, pct, atr_mult)\<close>: the percentage threshold when the volatility value is
  NaN, otherwise the larger of the percentage and the volatility threshold.
\<close>

definition thr :: "real \<Rightarrow> real option \<Rightarrow> real \<Rightarrow> real \<Rightarrow> real" where
  "thr base atr pct atr_mult =
     (case atr of None \<Rightarrow> base * pct | Some a \<Rightarrow> max (base * pct) (a * atr_mult))"

text \<open>The local variables of the zigzag loop; \<open>direction = None\<close> is Python's \<^verbatim>\<open>None\<close>.\<close>

record zz_state =
  piv :: "Pivot list"
  last_z :: real
  hi_z :: real
  lo_z :: real
  hi_i :: nat
  lo_i :: nat
  direction_z :: "Dir option"

text \<open>
  \<^verbatim>\<open>atr[i] if atr is not None and i<len(atr) else np.nan\<close>: the array itself may be absent,
  may be shorter than the close array, and may hold NaN.
\<close>

definition atr_at :: "real option list option \<Rightarrow> nat \<Rightarrow> real option" where
  "atr_at atr i = (case atr of None \<Rightarrow> None | Some a \<Rightarrow> if i < length a then a ! i else None)"

text \<open>
  One iteration of the loop body at bar \<open>i\<close>. The two \<^verbatim>\<open>if direction in ...\<close> blocks run in
  sequence: the second one sees the direction the first one may have just set.
\<close>

definition zz_up_block :: "real \<Rightarrow> real \<Rightarrow> nat \<Rightarrow> zz_state \<Rightarrow> zz_state" where
  "zz_up_block t p i s =
     (if direction_z s = None \<or> direction_z s = Some UP then
        (let s1 = (if p > hi_z s then s\<lparr>hi_z := p, hi_i := i\<rparr> else s)
         in if hi_z s1 - p \<ge> t
            then s1\<lparr>piv := piv s1 @ [\<lparr>idx = hi_i s1, price = hi_z s1, kind = H\<rparr>],
                    last_z := hi_z s1, lo_z := p, lo_i := i, direction_z := Some DOWN\<rparr>
            else s1)
      else s)"

definition zz_down_block :: "real \<Rightarrow> real \<Rightarrow> nat \<Rightarrow> zz_state \<Rightarrow> zz_state" where
  "zz_down_block t p i s =
     (if direction_z s = None \<or> direction_z s = Some DOWN then
        (let s1 = (if p < lo_z s then s\<lparr>lo_z := p, lo_i := i\<rparr> else s)
         in if p - lo_z s1 \<ge> t
            then s1\<lparr>piv := piv s1 @ [\<lparr>idx = lo_i s1, price = lo_z s1, kind = L\<rparr>],
                    last_z := lo_z s1, hi_z := p, hi_i := i, direction_z := Some UP\<rparr>
            else s1)
      else s)"

definition zz_step ::
  "real \<Rightarrow> real \<Rightarrow> real list \<Rightarrow> real option list option \<Rightarrow> zz_state \<Rightarrow> nat \<Rightarrow> zz_state" where
  "zz_step zz_pct zz_atr_mult close atr s i =
     (let p = close ! i;
          t = thr (last_z s) (atr_at atr i) zz_pct zz_atr_mult
      in zz_down_block t p i (zz_up_block t p i s))"

text \<open>
  The clean-up pass: a pivot of the same kind as the last kept one replaces it when it is
  at least as extreme, and is dropped otherwise.
\<close>

definition clean_step :: "Pivot list \<Rightarrow> Pivot \<Rightarrow> Pivot list" where
  "clean_step cleaned p =
     (if cleaned = [] \<or> kind (last cleaned) \<noteq> kind p then cleaned @ [p]
      else if (kind p = H \<and> price p \<ge> price (last cleaned))
              \<or> (kind p = L \<and> price p \<le> price (last cleaned))
           then butlast cleaned @ [p]
           else cleaned)"

definition zigzag ::
  "real \<Rightarrow> real \<Rightarrow> real list \<Rightarrow> real option list option \<Rightarrow> Pivot list" where
  "zigzag zz_pct zz_atr_mult close atr =
     (if length close < 3 then []
      else
        (let s0 = \<lparr>piv = [], last_z = close ! 0, hi_z = close ! 0, lo_z = close ! 0,
                   hi_i = 0, lo_i = 0, direction_z = None\<rparr>;
             s = foldl (zz_step zz_pct zz_atr_mult close atr) s0 [1 ..< length close]
         in foldl clean_step [] (sort_key idx (piv s))))"

text \<open>No two neighbours of a pivot list share their kind.\<close>

fun alternating :: "Pivot list \<Rightarrow> bool" where
  "alternating [] = True"
| "alternating [p] = True"
| "alternating (p # q # ps) = (kind p \<noteq> kind q \<and> alternating (q # ps))"

subsection \<open>ElliottEngine.detect\_impulses\<close>

text \<open>
  The \<^verbatim>\<open>while i<=len(piv)-6\<close> loop, with the result list as an accumulator. A rejected
  window advances by one pivot, an accepted one by three. The volatility at the third wave's
  end is read at \<^verbatim>\<open>atr[min(p3.idx, len(atr)-1)]\<close>, which raises on an empty array (index -1);
  a NaN there makes \<^verbatim>\<open>atr_b>0\<close> false, so the volatility gate lets the window pass.
  The \<^verbatim>\<open>close\<close> argument of the source is never read.
\<close>

definition atr_gate_fails :: "real option \<Rightarrow> real \<Rightarrow> real \<Rightarrow> bool" where
  "atr_gate_fails atr_b w min_imp =
     (case atr_b of None \<Rightarrow> False | Some a \<Rightarrow> a > 0 \<and> w / a < min_imp)"

function detect_impulses_loop ::
  "real \<Rightarrow> Pivot list \<Rightarrow> real option list \<Rightarrow> nat \<Rightarrow> Impulse list \<Rightarrow> py_error + Impulse list" where
  "detect_impulses_loop min_imp pv atr i res =
     (if i + 6 \<le> length pv then
        (let s = take 6 (drop i pv);
             p0 = s ! 0; p1 = s ! 1; p2 = s ! 2; p3 = s ! 3; p4 = s ! 4
         in if map kind s = [L, H, L, H, L, H] then
              (let w1 = price p1 - price p0; w3 = price p3 - price p2
               in if price p2 \<le> price p0 \<or> w1 \<le> 0 \<or> w3 < 0.6 * w1
                  then detect_impulses_loop min_imp pv atr (i + 1) res
                  else if price p4 \<le> price p1 * 0.98
                  then detect_impulses_loop min_imp pv atr (i + 1) res
                  else if atr = [] then Inl IndexError
                  else if atr_gate_fails (atr ! min (idx p3) (length atr - 1)) w3 min_imp
                  then detect_impulses_loop min_imp pv atr (i + 1) res
                  else detect_impulses_loop min_imp pv atr (i + 3)
                         (res @ [\<lparr>direction = UP, points = s\<rparr>]))
            else if map kind s = [H, L, H, L, H, L] then
              (let w1 = price p0 - price p1; w3 = price p2 - price p3
               in if price p2 \<ge> price p0 \<or> w1 \<le> 0 \<or> w3 < 0.6 * w1
                  then detect_impulses_loop min_imp pv atr (i + 1) res
                  else if price p4 \<ge> price p1 * 1.02
                  then detect_impulses_loop min_imp pv atr (i + 1) res
                  else if atr = [] then Inl IndexError
                  else if atr_gate_fails (atr ! min (idx p3) (length atr - 1)) \<bar>w3\<bar> min_imp
                  then detect_impulses_loop min_imp pv atr (i + 1) res
                  else detect_impulses_loop min_imp pv atr (i + 3)
                         (res @ [\<lparr>direction = DOWN, points = s\<rparr>]))
            else detect_impulses_loop min_imp pv atr (i + 1) res)
      else Inr res)"
  by pat_completeness auto
termination
  by (relation "measure (\<lambda>(min_imp, pv, atr, i, res). length pv - i)") auto

declare detect_impulses_loop.simps [simp del]

definition detect_impulses ::
  "real \<Rightarrow> Pivot list \<Rightarrow> real list \<Rightarrow> real option list \<Rightarrow> py_error + Impulse list" where
  "detect_impulses min_imp pv close atr = detect_impulses_loop min_imp pv atr 0 []"

text \<open>The six pivots of the impulse scenario.\<close>

definition scenario_pivots :: "Pivot list" where
  "scenario_pivots =
     [\<lparr>idx = 0, price = 100, kind = L\<rparr>, \<lparr>idx = 1, price = 110, kind = H\<rparr>,
      \<lparr>idx = 2, price = 105, kind = L\<rparr>, \<lparr>idx = 3, price = 115, kind = H\<rparr>,
      \<lparr>idx = 4, price = 108, kind = L\<rparr>, \<lparr>idx = 5, price = 120, kind = H\<rparr>]"

subsection \<open>Bars and configuration\<close>

text \<open>
  One row of a price frame (\<^verbatim>\<open>df.iloc[i]\<close>) with the columns the modelled functions read.
  \<open>date\<close> is the bar's timestamp in seconds; \<open>RSI\<close> may be NaN (\<^const>\<open>None\<close>).
\<close>

record bar =
  date :: int
  open_b :: real
  high :: real
  low :: real
  close_b :: real
  EMA_FAST :: real
  EMA_SLOW :: real
  ATR :: real
  ATR_PCT :: real
  RSI :: "real option"

text \<open>
  The entries of the global \<^verbatim>\<open>CFG\<close> dictionary that the modelled functions read. A key read
  with \<^verbatim>\<open>CFG.get(key, default)\<close> whose default depends on the program state is an option;
  a boolean key read with default \<^verbatim>\<open>False\<close> is a plain boolean.
\<close>

record config =
  REQUIRE_CONFIRM :: bool
  CONFIRM_RULES :: "string list"
  ATR_MULT_BUFFER :: real
  MAX_HOLD_M30 :: nat
  MAX_HOLD_H1 :: nat
  START_CAPITAL :: real
  RISK_PER_TRADE :: real
  DYNAMIC_DD_RISK :: bool
  DD_RISK_STEPS :: "(real \<times> real) list"
  USE_VOL_TARGET :: bool
  TARGET_ANNUAL_VOL :: real
  VOL_WINDOW_TRADES :: nat
  RISK_PER_TRADE_MIN :: "real option"
  RISK_PER_TRADE_MAX :: "real option"
  MAX_DRAWDOWN_STOP :: "real option"
  SIZE_SHORT_FACTOR :: real
  SIZE_BY_PROB :: bool
  PROB_SIZE_MIN :: real
  PROB_SIZE_MAX :: real
  ML_MIN_PASS_RATE_TEST :: real
  USE_ML :: bool
  TRAIN_FRAC :: real
  OPTIMIZE_ML_THRESHOLD :: bool

subsection \<open>confirm\_idx\<close>

text \<open>
  The body of the \<^verbatim>\<open>for i in range(touch_i,end+1)\<close> loop, over the list of indices still to
  visit. \<open>prev_hi\<close> and \<open>prev_lo\<close> are the values read once before the loop.
\<close>

fun confirm_scan ::
  "string list \<Rightarrow> bar list \<Rightarrow> Dir \<Rightarrow> real \<Rightarrow> real \<Rightarrow> nat list \<Rightarrow> nat option" where
  "confirm_scan rules df d prev_hi prev_lo [] = None"
| "confirm_scan rules df d prev_hi prev_lo (i # rest) =
     (let r = df ! i; cl = close_b r; ef = EMA_FAST r; es = EMA_SLOW r
      in if ''break_prev_extreme'' \<in> set rules \<and> d = UP \<and> cl > prev_hi then Some i
         else if ''break_prev_extreme'' \<in> set rules \<and> d = DOWN \<and> cl < prev_lo then Some i
         else if ''ema_fast_cross'' \<in> set rules \<and> d = UP \<and> cl > ef \<and> ef > es then Some i
         else if ''ema_fast_cross'' \<in> set rules \<and> d = DOWN \<and> cl < ef \<and> ef < es then Some i
         else confirm_scan rules df d prev_hi prev_lo rest)"

text \<open>
  The row index \<^verbatim>\<open>max(0,touch_i-1)\<close>, computed on Python's integers. Reading that row
  raises when it is not in the frame (an empty frame, or a touch index beyond the end).
\<close>

definition prev_index :: "nat \<Rightarrow> nat" where
  "prev_index touch_i = nat (max 0 (int touch_i - 1))"

definition confirm_idx ::
  "config \<Rightarrow> bar list \<Rightarrow> nat \<Rightarrow> Dir \<Rightarrow> nat \<Rightarrow> bool \<Rightarrow> py_error + nat option" where
  "confirm_idx cfg df touch_i d bars allow_touch =
     (if \<not> REQUIRE_CONFIRM cfg then Inr (Some touch_i)
      else if prev_index touch_i \<ge> length df then Inl IndexError
      else
        (let end = min (touch_i + bars) (length df - 1);
             prev_hi = high (df ! prev_index touch_i);
             prev_lo = low (df ! prev_index touch_i)
         in case confirm_scan (CONFIRM_RULES cfg) df d prev_hi prev_lo [touch_i ..< end + 1] of
              Some i \<Rightarrow> Inr (Some i)
            | None \<Rightarrow> Inr (if allow_touch then Some end else None)))"

subsection \<open>simulate\<close>

text \<open>The local variables of the bar-walking loop.\<close>

record sim_state =
  pos :: real
  realized :: real
  stop :: real
  extreme :: real
  mae :: real
  mfe :: real

text \<open>
  One iteration of the loop at a bar \<open>r\<close>, statement by statement. First the running
  extreme and the two excursion statistics (both divide by \<open>R\<close>).
\<close>

definition track :: "Dir \<Rightarrow> real \<Rightarrow> real \<Rightarrow> bar \<Rightarrow> sim_state \<Rightarrow> sim_state" where
  "track d entry R r s =
     (if d = UP
      then s\<lparr>extreme := max (extreme s) (high r),
              mae := min (mae s) ((low r - entry) / R),
              mfe := max (mfe s) ((high r - entry) / R)\<rparr>
      else s\<lparr>extreme := min (extreme s) (low r),
              mae := min (mae s) ((entry - high r) / R),
              mfe := max (mfe s) ((entry - low r) / R)\<rparr>)"

text \<open>The break-even promotion after +1R, for a position still at full size.\<close>

definition break_even :: "Dir \<Rightarrow> real \<Rightarrow> real \<Rightarrow> sim_state \<Rightarrow> sim_state" where
  "break_even d entry R s =
     (if d = UP
      then (if pos s = 1.0 \<and> extreme s - entry \<ge> R then s\<lparr>stop := max (stop s) entry\<rparr> else s)
      else (if pos s = 1.0 \<and> entry - extreme s \<ge> R then s\<lparr>stop := min (stop s) entry\<rparr> else s))"

text \<open>Half of the position is realized at the first target; the stop moves to the entry.\<close>

definition take_tp1 :: "Dir \<Rightarrow> real \<Rightarrow> real \<Rightarrow> bar \<Rightarrow> sim_state \<Rightarrow> sim_state" where
  "take_tp1 d entry tp1 r s =
     (if d = UP
      then (if pos s = 1.0 \<and> high r \<ge> tp1
            then s\<lparr>realized := realized s + (tp1 - entry) * 0.5, pos := 0.5, stop := entry\<rparr>
            else s)
      else (if pos s = 1.0 \<and> low r \<le> tp1
            then s\<lparr>realized := realized s + (entry - tp1) * 0.5, pos := 0.5, stop := entry\<rparr>
            else s))"

text \<open>
  The two \<^verbatim>\<open>return\<close> statements of the iteration: the stop, then the second target. The
  result carries the exit price when the iteration returns.
\<close>

definition exit_check ::
  "Dir \<Rightarrow> real \<Rightarrow> real \<Rightarrow> bar \<Rightarrow> sim_state \<Rightarrow> sim_state \<times> real option" where
  "exit_check d entry tp2 r s =
     (if d = UP
      then (if low r \<le> stop s
            then (s\<lparr>realized := realized s + (stop s - entry) * pos s\<rparr>, Some (stop s))
            else if pos s = 0.5 \<and> high r \<ge> tp2
            then (s\<lparr>realized := realized s + (tp2 - entry) * 0.5\<rparr>, Some tp2)
            else (s, None))
      else (if high r \<ge> stop s
            then (s\<lparr>realized := realized s + (entry - stop s) * pos s\<rparr>, Some (stop s))
            else if pos s = 0.5 \<and> low r \<le> tp2
            then (s\<lparr>realized := realized s + (entry - tp2) * 0.5\<rparr>, Some tp2)
            else (s, None)))"

text \<open>
  The whole iteration. The first statement divides by \<open>R\<close>, which raises in Python when
  \<open>R\<close> is zero.
\<close>

definition sim_bar ::
  "Dir \<Rightarrow> real \<Rightarrow> real \<Rightarrow> real \<Rightarrow> real \<Rightarrow> bar \<Rightarrow> sim_state \<Rightarrow> py_error + (sim_state \<times> real option)" where
  "sim_bar d entry R tp1 tp2 r s =
     (if R = 0 then Inl ZeroDivisionError
      else Inr (exit_check d entry tp2 r
                  (take_tp1 d entry tp1 r (break_even d entry R (track d entry R r s)))))"

text \<open>
  The loop over the bar indices still to visit: an error, or the variables at the end
  together with the exit index and price when an iteration returned.
\<close>

fun sim_loop ::
  "Dir \<Rightarrow> real \<Rightarrow> real \<Rightarrow> real \<Rightarrow> real \<Rightarrow> bar list \<Rightarrow> nat list \<Rightarrow> sim_state
   \<Rightarrow> py_error + (sim_state \<times> (nat \<times> real) option)" where
  "sim_loop d entry R tp1 tp2 df [] s = Inr (s, None)"
| "sim_loop d entry R tp1 tp2 df (i # rest) s =
     (case sim_bar d entry R tp1 tp2 (df ! i) s of
        Inl e \<Rightarrow> Inl e
      | Inr (s', Some px) \<Rightarrow> Inr (s', Some (i, px))
      | Inr (s', None) \<Rightarrow> sim_loop d entry R tp1 tp2 df rest s')"

text \<open>
  The variables after each iteration the loop runs, in order (the same recursion as
  \<open>sim_loop\<close>, keeping every intermediate state).
\<close>

fun sim_trace ::
  "Dir \<Rightarrow> real \<Rightarrow> real \<Rightarrow> real \<Rightarrow> real \<Rightarrow> bar list \<Rightarrow> nat list \<Rightarrow> sim_state \<Rightarrow> sim_state list" where
  "sim_trace d entry R tp1 tp2 df [] s = []"
| "sim_trace d entry R tp1 tp2 df (i # rest) s =
     (case sim_bar d entry R tp1 tp2 (df ! i) s of
        Inl e \<Rightarrow> []
      | Inr (s', Some px) \<Rightarrow> [s']
      | Inr (s', None) \<Rightarrow> s' # sim_trace d entry R tp1 tp2 df rest s')"

definition sim_init :: "real \<Rightarrow> real \<Rightarrow> sim_state" where
  "sim_init entry stop0 =
     \<lparr>pos = 1.0, realized = 0.0, stop = stop0, extreme = entry, mae = 0.0, mfe = 0.0\<rparr>"

text \<open>
  \<^verbatim>\<open>end=min(entry_i+max_bars, len(df)-1)\<close>; on an empty frame Python's \<open>end\<close> is -1, the loop
  does not run and \<^verbatim>\<open>df.iloc[end]\<close> raises.
\<close>

definition sim_end :: "bar list \<Rightarrow> nat \<Rightarrow> nat \<Rightarrow> nat" where
  "sim_end df entry_i max_bars = min (entry_i + max_bars) (length df - 1)"

definition simulate_states ::
  "bar list \<Rightarrow> nat \<Rightarrow> real \<Rightarrow> Dir \<Rightarrow> real \<Rightarrow> real \<Rightarrow> real \<Rightarrow> nat \<Rightarrow> sim_state list" where
  "simulate_states df entry_i entry d stop0 tp1 tp2 max_bars =
     sim_init entry stop0 #
     sim_trace d entry \<bar>entry - stop0\<bar> tp1 tp2 df
       [entry_i + 1 ..< sim_end df entry_i max_bars + 1] (sim_init entry stop0)"

text \<open>The result tuple is (exit index, exit price, realized, mae, mfe).\<close>

definition simulate ::
  "bar list \<Rightarrow> nat \<Rightarrow> real \<Rightarrow> Dir \<Rightarrow> real \<Rightarrow> real \<Rightarrow> real \<Rightarrow> nat
   \<Rightarrow> py_error + (nat \<times> real \<times> real \<times> real \<times> real)" where
  "simulate df entry_i entry d stop0 tp1 tp2 max_bars =
     (let end = sim_end df entry_i max_bars;
          R = \<bar>entry - stop0\<bar>
      in case sim_loop d entry R tp1 tp2 df [entry_i + 1 ..< end + 1] (sim_init entry stop0) of
           Inl e \<Rightarrow> Inl e
         | Inr (s, Some (i, px)) \<Rightarrow> Inr (i, px, realized s, mae s, mfe s)
         | Inr (s, None) \<Rightarrow>
             if df = [] then Inl IndexError
             else if R = 0 then Inl ZeroDivisionError
             else
               (let last = close_b (df ! end)
                in if d = UP
                   then Inr (end, last, realized s + (last - entry) * pos s, mae s,
                             max (mfe s) ((last - entry) / R))
                   else Inr (end, last, realized s + (entry - last) * pos s, mae s,
                             max (mfe s) ((entry - last) / R))))"

subsection \<open>Strategy types and the entry-bar features\<close>

record Setup =
  setup_s :: string
  direction_s :: Dir
  start_time :: int
  entry_tf_s :: string
  zone :: "real \<times> real"
  stop_ref :: real
  tp1_s :: real
  tp2_s :: real

text \<open>The dictionary returned by \<^verbatim>\<open>build_features\<close>, one field per key.\<close>

record feature_vec =
  dir_up :: real
  setup_W3 :: real
  setup_W5 :: real
  setup_C :: real
  atr_pct :: real
  ema_fast_slow_pct :: real
  price_above_ema_fast :: real
  zone_width_pct :: real
  dist_to_zone_center_pct :: real
  rsi :: real
  hour_sin :: real
  hour_cos :: real
  dow_sin :: real
  dow_cos :: real

record SimTrade =
  entry_tf :: string
  entry_idx :: nat
  exit_idx :: nat
  entry_t :: real
  exit_t :: real
  per_share :: real
  risk_per_share :: real
  setup_t :: string
  direction_t :: string
  time_in :: int
  time_out :: int
  stop_t :: real
  tp1_t :: real
  tp2_t :: real
  mae_r :: real
  mfe_r :: real
  features :: feature_vec
  label :: nat

text \<open>
  A timestamp is a number of seconds since 1970-01-01 00:00 (a Thursday, weekday 3 in
  Python's numbering from Monday = 0).
\<close>

definition ts_hour :: "int \<Rightarrow> int" where
  "ts_hour t = (t div 3600) mod 24"

definition ts_minute :: "int \<Rightarrow> int" where
  "ts_minute t = (t div 60) mod 60"

definition ts_weekday :: "int \<Rightarrow> int" where
  "ts_weekday t = (t div 86400 + 3) mod 7"

definition build_features ::
  "bar list \<Rightarrow> nat \<Rightarrow> Dir \<Rightarrow> string \<Rightarrow> real \<times> real \<Rightarrow> feature_vec" where
  "build_features df e_idx d setup z =
     (let r = df ! e_idx;
          cl = close_b r; ef = EMA_FAST r; es = EMA_SLOW r;
          zl = fst z; zh = snd z;
          hour = real_of_int (ts_hour (date r)) + real_of_int (ts_minute (date r)) / 60.0;
          dow = real_of_int (ts_weekday (date r))
      in \<lparr>dir_up = (if d = UP then 1.0 else 0.0),
          setup_W3 = (if setup = ''W3'' then 1.0 else 0.0),
          setup_W5 = (if setup = ''W5'' then 1.0 else 0.0),
          setup_C = (if setup = ''C'' then 1.0 else 0.0),
          atr_pct = ATR_PCT r,
          ema_fast_slow_pct = (if cl \<noteq> 0 then (ef - es) / cl else 0.0),
          price_above_ema_fast = (if cl \<noteq> 0 then (cl - ef) / cl else 0.0),
          zone_width_pct = (if cl \<noteq> 0 then \<bar>zh - zl\<bar> / cl else 0.0),
          dist_to_zone_center_pct = (if cl \<noteq> 0 then \<bar>cl - (zl + zh) / 2\<bar> / cl else 0.0),
          rsi = (case RSI r of None \<Rightarrow> 50.0 | Some v \<Rightarrow> v),
          hour_sin = sin (2 * pi * hour / 24.0), hour_cos = cos (2 * pi * hour / 24.0),
          dow_sin = sin (2 * pi * dow / 7.0), dow_cos = cos (2 * pi * dow / 7.0)\<rparr>)"

subsection \<open>Backtester.simulate\_all: from the confirmed entry bar to the simulated trade\<close>

text \<open>
  The part of the per-setup loop body that runs once an entry bar \<open>e_idx\<close> has been
  confirmed in the frame \<open>df\<close>. The state of the loop is the list of simulated trades and
  the telemetry dictionary of counters.
\<close>

record sim_run =
  sim_trades :: "SimTrade list"
  telemetry :: "string \<Rightarrow> nat"

definition stop_for :: "config \<Rightarrow> bar list \<Rightarrow> Setup \<Rightarrow> nat \<Rightarrow> real" where
  "stop_for cfg df sp e_idx =
     (let atr = ATR (df ! e_idx);
          atr_mult = ATR_MULT_BUFFER cfg;
          buffer = atr_mult * atr
      in if direction_s sp = UP then stop_ref sp - buffer else stop_ref sp + buffer)"

definition rps_for :: "config \<Rightarrow> bar list \<Rightarrow> Setup \<Rightarrow> nat \<Rightarrow> real" where
  "rps_for cfg df sp e_idx = \<bar>close_b (df ! e_idx) - stop_for cfg df sp e_idx\<bar>"

definition simulate_confirmed ::
  "config \<Rightarrow> bar list \<Rightarrow> Setup \<Rightarrow> nat \<Rightarrow> sim_run \<Rightarrow> py_error + sim_run" where
  "simulate_confirmed cfg df sp e_idx st =
     (if e_idx \<ge> length df then Inl IndexError
      else
        (let stop0 = stop_for cfg df sp e_idx;
             entry = close_b (df ! e_idx);
             rps = rps_for cfg df sp e_idx
         in if rps \<le> 1 / 10 ^ 9 then Inr st
            else
              (let max_hold = (if entry_tf_s sp = ''30m'' then MAX_HOLD_M30 cfg else MAX_HOLD_H1 cfg)
               in case simulate df e_idx entry (direction_s sp) stop0 (tp1_s sp) (tp2_s sp) max_hold of
                    Inl e \<Rightarrow> Inl e
                  | Inr (x_idx, x_price, ps, mae_v, mfe_v) \<Rightarrow>
                      Inr \<lparr>sim_trades = sim_trades st @
                             [\<lparr>entry_tf = entry_tf_s sp, entry_idx = e_idx, exit_idx = x_idx,
                               entry_t = entry, exit_t = x_price, per_share = ps,
                               risk_per_share = rps, setup_t = setup_s sp,
                               direction_t = (if direction_s sp = UP then ''LONG'' else ''SHORT''),
                               time_in = date (df ! e_idx), time_out = date (df ! x_idx),
                               stop_t = stop0, tp1_t = tp1_s sp, tp2_t = tp2_s sp,
                               mae_r = mae_v, mfe_r = mfe_v,
                               features = build_features df e_idx (direction_s sp) (setup_s sp) (zone sp),
                               label = (if ps > 0 then 1 else 0)\<rparr>],
                           telemetry = (telemetry st)(''accepted'' := telemetry st ''accepted'' + 1)\<rparr>)))"

subsection \<open>The classifier gate: Backtester.run and the pass-rate guard\<close>

text \<open>
  The trained classifier is used only through \<^verbatim>\<open>predict_proba(X)[:,1]\<close>: a model is the
  function from a feature vector to the predicted probability. Training
  (\<^verbatim>\<open>GradientBoostingClassifier(...).fit\<close>) is a parameter \<open>fit\<close> of the model of
  \<^verbatim>\<open>run\<close>; it may raise.
\<close>

type_synonym model = "feature_vec \<Rightarrow> real"

text \<open>
  \<^verbatim>\<open>np.quantile(a, q)\<close> with its default linear interpolation: on the sorted array, the
  value at the virtual index \<open>q (n - 1)\<close>, interpolated between its two neighbours. It
  raises for \<open>q\<close> outside [0, 1]; the callers never pass an empty array.
\<close>

definition quantile :: "real list \<Rightarrow> real \<Rightarrow> py_error + real" where
  "quantile a q =
     (if q < 0 \<or> q > 1 then Inl ValueError
      else if a = [] then Inl IndexError
      else
        (let srt = sort a;
             h = q * real (length a - 1);
             lo_k = nat \<lfloor>h\<rfloor>;
             hi_k = min (lo_k + 1) (length a - 1)
         in Inr (srt ! lo_k + (h - real lo_k) * (srt ! hi_k - srt ! lo_k))))"

text \<open>\<^verbatim>\<open>float((probs>=threshold).mean())\<close>: the share of probabilities at or above the threshold.\<close>

definition pass_rate :: "real list \<Rightarrow> real \<Rightarrow> real" where
  "pass_rate probs threshold =
     real (length (filter (\<lambda>p. p \<ge> threshold) probs)) / real (length probs)"

text \<open>
  The first block of \<^verbatim>\<open>build_equity\<close>: the threshold after the pass-rate check on the
  out-of-sample candidates (those entered after \<open>train_until\<close>).
\<close>

definition pass_rate_guard ::
  "config \<Rightarrow> model option \<Rightarrow> real \<Rightarrow> int \<Rightarrow> SimTrade list \<Rightarrow> py_error + real" where
  "pass_rate_guard cfg mdl threshold train_until sims =
     (let oos = filter (\<lambda>t. time_in t > train_until) sims
      in case mdl of
           None \<Rightarrow> Inr threshold
         | Some m \<Rightarrow>
             if oos = [] then Inr threshold
             else
               (let probs = map (\<lambda>t. m (features t)) oos;
                    raw_rate = pass_rate probs threshold
                in if raw_rate < ML_MIN_PASS_RATE_TEST cfg
                   then (case quantile probs (1 - ML_MIN_PASS_RATE_TEST cfg) of
                           Inl e \<Rightarrow> Inl e
                         | Inr thr_relaxed \<Rightarrow> Inr (min threshold thr_relaxed))
                   else Inr threshold))"

text \<open>
  The optional threshold search of \<^verbatim>\<open>run\<close> over the quantile grid
  \<^verbatim>\<open>np.linspace(0.2,0.9,15)\<close>. The whole block sits in \<^verbatim>\<open>try ... except Exception: pass\<close>
  and assigns the threshold as its last statement, so an exception leaves the threshold as
  it was.
\<close>

fun threshold_scan ::
  "real list \<Rightarrow> nat list \<Rightarrow> real list \<Rightarrow> real \<Rightarrow> real \<Rightarrow> py_error + real" where
  "threshold_scan probs labels [] best_thr best_score = Inr best_thr"
| "threshold_scan probs labels (q # qs) best_thr best_score =
     (case quantile probs q of
        Inl e \<Rightarrow> Inl e
      | Inr t \<Rightarrow>
          (let sel = map snd (filter (\<lambda>pl. fst pl \<ge> t) (zip probs labels))
           in if length sel < 5 then threshold_scan probs labels qs best_thr best_score
              else
                (let win_rate = real (sum_list sel) / real (length sel);
                     score = win_rate - 0.5 * (1 - win_rate)
                 in if score > best_score then threshold_scan probs labels qs t score
                    else threshold_scan probs labels qs best_thr best_score)))"

definition linspace_02_09_15 :: "real list" where
  "linspace_02_09_15 = map (\<lambda>k. 0.2 + real k * ((0.9 - 0.2) / 14)) [0 ..< 15]"

definition optimize_threshold :: "model \<Rightarrow> real \<Rightarrow> int \<Rightarrow> SimTrade list \<Rightarrow> real" where
  "optimize_threshold m threshold train_until sims =
     (let val = filter (\<lambda>t. time_in t > train_until) sims
      in if length val \<ge> 25
         then (case threshold_scan (map (\<lambda>t. m (features t)) val) (map label val)
                      linspace_02_09_15 threshold (- (10 ^ 9)) of
                 Inl e \<Rightarrow> threshold
               | Inr t \<Rightarrow> t)
         else threshold)"

text \<open>Python's \<^verbatim>\<open>int(x)\<close> on a float: truncation towards zero.\<close>

definition py_int :: "real \<Rightarrow> int" where
  "py_int x = (if x \<ge> 0 then \<lfloor>x\<rfloor> else \<lceil>x\<rceil>)"

text \<open>
  The chronological split of \<^verbatim>\<open>run\<close>: the entry time of the last candidate of the training
  fraction. The index is out of range when \<open>TRAIN_FRAC\<close> is above 1.
\<close>

definition train_until_of :: "config \<Rightarrow> SimTrade list \<Rightarrow> py_error + int" where
  "train_until_of cfg sims =
     (let times = sort (map time_in sims);
          split_idx = max 1 (py_int (real (length times) * TRAIN_FRAC cfg))
      in if nat (split_idx - 1) \<ge> length times then Inl IndexError
         else Inr (times ! nat (split_idx - 1)))"

text \<open>
  The \<^verbatim>\<open>if CFG["USE_ML"]\<close> block of \<^verbatim>\<open>run\<close>: the model (\<^const>\<open>None\<close> when no classifier is
  trained) and the threshold handed to \<^verbatim>\<open>build_equity\<close>.
\<close>

definition run_ml ::
  "config \<Rightarrow> (SimTrade list \<Rightarrow> py_error + model) \<Rightarrow> SimTrade list \<Rightarrow> int
   \<Rightarrow> py_error + (model option \<times> real)" where
  "run_ml cfg fit sims train_until =
     (if USE_ML cfg then
        (let train = filter (\<lambda>t. time_in t \<le> train_until) sims
         in if length train \<ge> 20
            then (case fit train of
                    Inl e \<Rightarrow> Inl e
                  | Inr m \<Rightarrow>
                      Inr (Some m,
                           if OPTIMIZE_ML_THRESHOLD cfg
                           then optimize_threshold m 0.5 train_until sims else 0.5))
            else Inr (None, 0.5))
      else Inr (None, 0.5))"

subsection \<open>Backtester.build\_equity: sizing and accounting\<close>

text \<open>
  An accounted trade: the fields copied from the simulated trade are kept as the simulated
  trade itself, next to the fields that the accounting adds.
\<close>

record Trade =
  sim :: SimTrade
  pnl :: real
  size_t :: int
  rr :: real
  prob_t :: "real option"

text \<open>The variables that \<^verbatim>\<open>add\<close> reads and updates.\<close>

record account =
  cap :: real
  highest_global :: real
  trade_returns :: "real list"
  eq_map :: "int \<Rightarrow> real option"
  trades :: "Trade list"

definition dd_percent :: "real \<Rightarrow> real \<Rightarrow> real" where
  "dd_percent current_cap highest_cap =
     (if highest_cap > 0 then (current_cap / highest_cap - 1.0) * 100.0 else 0.0)"

text \<open>
  The tiers are visited by ascending threshold and every tier whose threshold is at or
  above the current drawdown overwrites the multiplier.
\<close>

definition risk_multiplier_for_dd :: "config \<Rightarrow> real \<Rightarrow> real" where
  "risk_multiplier_for_dd cfg cur_dd =
     (if \<not> DYNAMIC_DD_RISK cfg then 1.0
      else foldl (\<lambda>mult tm. if cur_dd \<le> fst tm then snd tm else mult) 1.0
             (sort_key fst (DD_RISK_STEPS cfg)))"

text \<open>\<^verbatim>\<open>np.std(recent, ddof=1)\<close>, the sample standard deviation.\<close>

definition np_std1 :: "real list \<Rightarrow> real" where
  "np_std1 xs =
     (let n = real (length xs); m = sum_list xs / n
      in sqrt (sum_list (map (\<lambda>x. (x - m) ^ 2) xs) / (n - 1)))"

text \<open>
  \<^verbatim>\<open>trade_returns[-window:]\<close> is the whole list for a window of zero. On a single value
  the sample deviation is NaN; every comparison with it is false, and
  \<^verbatim>\<open>max(0.4, min(1.6, nan))\<close> is 1.6.
\<close>

definition vol_adjustment :: "config \<Rightarrow> real list \<Rightarrow> real" where
  "vol_adjustment cfg returns =
     (if \<not> USE_VOL_TARGET cfg then 1.0
      else if length returns < 5 then 1.0
      else
        (let target = TARGET_ANNUAL_VOL cfg;
             window = VOL_WINDOW_TRADES cfg;
             recent = (if window = 0 then returns else drop (length returns - window) returns)
         in if length recent < 2 then 1.6
            else
              (let s = np_std1 recent
               in if s \<le> 1 / 10 ^ 9 then 1.0
                  else max 0.4 (min 1.6 (target / (s * 4))))))"

definition max_drawdown_stop :: "config \<Rightarrow> real" where
  "max_drawdown_stop cfg = (case MAX_DRAWDOWN_STOP cfg of None \<Rightarrow> - (10 ^ 9) | Some v \<Rightarrow> v)"

text \<open>The hard stop at the head of \<^verbatim>\<open>add\<close>: the trade is refused.\<close>

definition hard_stop :: "config \<Rightarrow> account \<Rightarrow> bool" where
  "hard_stop cfg a =
     (max_drawdown_stop cfg > - (10 ^ 8)
      \<and> dd_percent (cap a) (highest_global a) \<le> max_drawdown_stop cfg)"

text \<open>
  The risk fraction \<^verbatim>\<open>eff_risk\<close> after the clamp. A missing bound defaults to the
  unclamped value itself.
\<close>

definition eff_risk :: "config \<Rightarrow> account \<Rightarrow> real" where
  "eff_risk cfg a =
     (let base_risk = RISK_PER_TRADE cfg;
          cur_dd = dd_percent (cap a) (highest_global a);
          dd_mult = risk_multiplier_for_dd cfg cur_dd;
          vol_mult = vol_adjustment cfg (trade_returns a);
          eff = base_risk * dd_mult * vol_mult
      in max (case RISK_PER_TRADE_MIN cfg of None \<Rightarrow> eff | Some v \<Rightarrow> v)
             (min eff (case RISK_PER_TRADE_MAX cfg of None \<Rightarrow> eff | Some v \<Rightarrow> v)))"

definition prob_scale :: "config \<Rightarrow> real \<Rightarrow> real \<Rightarrow> real" where
  "prob_scale cfg threshold p =
     (let fr = max 0.0 ((p - threshold) / max (1 / 10 ^ 6) (1 - threshold))
      in PROB_SIZE_MIN cfg + (PROB_SIZE_MAX cfg - PROB_SIZE_MIN cfg) * fr)"

text \<open>
  The size of the position: the clamped risk fraction turned into a share count, then the
  short factor, then the probability scale, then \<^verbatim>\<open>int(max(1,size))\<close>.
\<close>

definition position_size :: "config \<Rightarrow> real \<Rightarrow> SimTrade \<Rightarrow> real option \<Rightarrow> account \<Rightarrow> int" where
  "position_size cfg threshold st prob a =
     (let sz0 = (eff_risk cfg a * cap a) / max (risk_per_share st) (1 / 10 ^ 9);
          sz1 = (if direction_t st = ''SHORT'' then sz0 * SIZE_SHORT_FACTOR cfg else sz0);
          sz2 = (case prob of
                   None \<Rightarrow> sz1
                 | Some p \<Rightarrow> if SIZE_BY_PROB cfg then sz1 * prob_scale cfg threshold p else sz1)
      in py_int (max 1 sz2))"

text \<open>
  The exit time mapped to the next hourly bar; on an empty hourly frame the fallback
  \<^verbatim>\<open>self.h1["date"].iloc[-1]\<close> raises.
\<close>

definition map_time :: "bar list \<Rightarrow> int \<Rightarrow> py_error + int" where
  "map_time h1 t_out =
     (case filter (\<lambda>b. date b \<ge> t_out) h1 of
        b # rest \<Rightarrow> Inr (date b)
      | [] \<Rightarrow> if h1 = [] then Inl IndexError else Inr (date (last h1)))"

definition add ::
  "config \<Rightarrow> bar list \<Rightarrow> real \<Rightarrow> SimTrade \<Rightarrow> real option \<Rightarrow> account \<Rightarrow> py_error + account" where
  "add cfg h1 threshold st prob a =
     (if hard_stop cfg a then Inr a
      else
        (let sz = position_size cfg threshold st prob a;
             pnl_v = per_share st * real_of_int sz;
             cap_v = cap a + pnl_v;
             rr_v = per_share st / max (risk_per_share st) (1 / 10 ^ 9)
         in case map_time h1 (time_out st) of
              Inl e \<Rightarrow> Inl e
            | Inr mt \<Rightarrow>
                Inr \<lparr>cap = cap_v, highest_global = max (highest_global a) cap_v,
                     trade_returns = trade_returns a @ [rr_v],
                     eq_map = (eq_map a)(mt \<mapsto> cap_v),
                     trades = trades a @
                       [\<lparr>sim = st, pnl = pnl_v, size_t = sz, rr = rr_v, prob_t = prob\<rparr>]\<rparr>))"

text \<open>
  The loop of \<^verbatim>\<open>build_equity\<close> over the simulated trades: a training-period trade, and any
  trade when there is no model, is accounted with no probability; an out-of-sample trade
  under a model is accounted only when its probability reaches the threshold.
\<close>

fun equity_loop ::
  "config \<Rightarrow> bar list \<Rightarrow> model option \<Rightarrow> real \<Rightarrow> int \<Rightarrow> SimTrade list \<Rightarrow> account
   \<Rightarrow> py_error + account" where
  "equity_loop cfg h1 mdl threshold train_until [] a = Inr a"
| "equity_loop cfg h1 mdl threshold train_until (st # rest) a =
     (if time_in st \<le> train_until
      then (case add cfg h1 threshold st None a of
              Inl e \<Rightarrow> Inl e
            | Inr a' \<Rightarrow> equity_loop cfg h1 mdl threshold train_until rest a')
      else
        (case mdl of
           None \<Rightarrow>
             (case add cfg h1 threshold st None a of
                Inl e \<Rightarrow> Inl e
              | Inr a' \<Rightarrow> equity_loop cfg h1 mdl threshold train_until rest a')
         | Some m \<Rightarrow>
             (let p = m (features st)
              in if p \<ge> threshold
                 then (case add cfg h1 threshold st (Some p) a of
                         Inl e \<Rightarrow> Inl e
                       | Inr a' \<Rightarrow> equity_loop cfg h1 mdl threshold train_until rest a')
                 else equity_loop cfg h1 mdl threshold train_until rest a)))"

definition account0 :: "config \<Rightarrow> account" where
  "account0 cfg = \<lparr>cap = START_CAPITAL cfg, highest_global = START_CAPITAL cfg,
                   trade_returns = [], eq_map = Map.empty, trades = []\<rparr>"

text \<open>
  \<^verbatim>\<open>build_equity\<close> up to the end of the trade loop (the equity curve drawn from
  \<open>eq_map\<close> afterwards and the diagnostic pass-rate counters are left out).
\<close>

definition build_equity ::
  "config \<Rightarrow> bar list \<Rightarrow> model option \<Rightarrow> real \<Rightarrow> int \<Rightarrow> SimTrade list \<Rightarrow> py_error + account" where
  "build_equity cfg h1 mdl threshold train_until sims =
     (case pass_rate_guard cfg mdl threshold train_until sims of
        Inl e \<Rightarrow> Inl e
      | Inr thr_used \<Rightarrow> equity_loop cfg h1 mdl thr_used train_until sims (account0 cfg))"

text \<open>
  \<^verbatim>\<open>run\<close> from the list of simulated trades on: \<^const>\<open>None\<close> is the empty result returned
  when nothing was simulated.
\<close>

definition run ::
  "config \<Rightarrow> (SimTrade list \<Rightarrow> py_error + model) \<Rightarrow> bar list \<Rightarrow> SimTrade list
   \<Rightarrow> py_error + account option" where
  "run cfg fit h1 sims =
     (if sims = [] then Inr None
      else
        (case train_until_of cfg sims of
           Inl e \<Rightarrow> Inl e
         | Inr train_until \<Rightarrow>
             (case run_ml cfg fit sims train_until of
                Inl e \<Rightarrow> Inl e
              | Inr (mdl, threshold) \<Rightarrow>
                  (case build_equity cfg h1 mdl threshold train_until sims of
                     Inl e \<Rightarrow> Inl e
                   | Inr a \<Rightarrow> Inr (Some a)))))"

subsection \<open>ElliottEngine.fib\_ext\<close>

definition fib_ext :: "real \<Rightarrow> real \<Rightarrow> Dir \<Rightarrow> real \<Rightarrow> real" where
  "fib_ext A B d ext = (if d = UP then B + (B - A) * (ext - 1.0) else B - (A - B) * (ext - 1.0))"

subsection \<open>Notions used to state the properties\<close>

text \<open>
  The stop is at or beyond the entry price: not below it for a long trade, not above it for
  a short one.
\<close>

definition stop_locked :: "Dir \<Rightarrow> real \<Rightarrow> sim_state \<Rightarrow> bool" where
  "stop_locked d entry s = (if d = UP then entry \<le> stop s else stop s \<le> entry)"

text \<open>The condition of the break-even promotion: the running extreme is 1R in favour.\<close>

definition reached_1R :: "Dir \<Rightarrow> real \<Rightarrow> real \<Rightarrow> sim_state \<Rightarrow> bool" where
  "reached_1R d entry R s = (if d = UP then extreme s - entry \<ge> R else entry - extreme s \<ge> R)"

text \<open>
  The confirmation rules as a predicate of a candidate bar \<open>r\<close> and one reference bar
  \<open>ref\<close>, and entry confirmation as the first bar of the window that satisfies them against
  the bar immediately before the touch bar, \<open>df ! (touch_i - 1)\<close>. Subtraction on natural
  numbers stops at zero, so for a touch bar at index 0 the reference is bar 0 itself.
\<close>

definition bar_confirms :: "string list \<Rightarrow> Dir \<Rightarrow> bar \<Rightarrow> bar \<Rightarrow> bool" where
  "bar_confirms rules d ref r =
     ((''break_prev_extreme'' \<in> set rules
        \<and> ((d = UP \<and> close_b r > high ref) \<or> (d = DOWN \<and> close_b r < low ref)))
      \<or> (''ema_fast_cross'' \<in> set rules
        \<and> ((d = UP \<and> close_b r > EMA_FAST r \<and> EMA_FAST r > EMA_SLOW r)
           \<or> (d = DOWN \<and> close_b r < EMA_FAST r \<and> EMA_FAST r < EMA_SLOW r))))"

definition confirm_fixed_reference ::
  "config \<Rightarrow> bar list \<Rightarrow> nat \<Rightarrow> Dir \<Rightarrow> nat \<Rightarrow> bool \<Rightarrow> nat option" where
  "confirm_fixed_reference cfg df touch_i d bars allow_touch =
     (let end = min (touch_i + bars) (length df - 1);
          ref = df ! (touch_i - 1)
      in case find (\<lambda>i. bar_confirms (CONFIRM_RULES cfg) d ref (df ! i)) [touch_i ..< end + 1] of
           Some i \<Rightarrow> Some i
         | None \<Rightarrow> if allow_touch then Some end else None)"

text \<open>
  The variant the source does not implement: each candidate bar compared with its own
  predecessor.
\<close>

definition confirm_own_predecessor ::
  "config \<Rightarrow> bar list \<Rightarrow> nat \<Rightarrow> Dir \<Rightarrow> nat \<Rightarrow> bool \<Rightarrow> nat option" where
  "confirm_own_predecessor cfg df touch_i d bars allow_touch =
     (let end = min (touch_i + bars) (length df - 1)
      in case find (\<lambda>i. bar_confirms (CONFIRM_RULES cfg) d (df ! (i - 1)) (df ! i))
                [touch_i ..< end + 1] of
           Some i \<Rightarrow> Some i
         | None \<Rightarrow> if allow_touch then Some end else None)"

text \<open>
  Equity accounting of a list of candidates, each with the probability it is sized with
  (\<^const>\<open>None\<close> for a candidate that passed no probability gate): \<^verbatim>\<open>add\<close> called on
  each in turn.
\<close>

fun add_all ::
  "config \<Rightarrow> bar list \<Rightarrow> real \<Rightarrow> (SimTrade \<times> real option) list \<Rightarrow> account \<Rightarrow> py_error + account" where
  "add_all cfg h1 threshold [] a = Inr a"
| "add_all cfg h1 threshold (sp # rest) a =
     (case add cfg h1 threshold (fst sp) (snd sp) a of
        Inl e \<Rightarrow> Inl e
      | Inr a' \<Rightarrow> add_all cfg h1 threshold rest a')"

text \<open>
  The risk a position really carries, relative to the capital at sizing: share count times
  risk per share over capital.
\<close>

definition sized_risk :: "config \<Rightarrow> real \<Rightarrow> SimTrade \<Rightarrow> real option \<Rightarrow> account \<Rightarrow> real" where
  "sized_risk cfg threshold st prob a =
     real_of_int (position_size cfg threshold st prob a) * risk_per_share st / cap a"

subsection \<open>Example data\<close>

text \<open>A bar with the given high, low and close; the averages sit on the close.\<close>

definition mk_bar :: "real \<Rightarrow> real \<Rightarrow> real \<Rightarrow> bar" where
  "mk_bar h l c = \<lparr>date = 0, open_b = c, high = h, low = l, close_b = c, EMA_FAST = c,
                   EMA_SLOW = c, ATR = 1, ATR_PCT = 1, RSI = Some 50\<rparr>"

definition ex_bars :: "bar list" where
  "ex_bars = [mk_bar 100 100 100, mk_bar 106 101 105, mk_bar 104 101 103, mk_bar 103 99 100]"

definition ex_bars2 :: "bar list" where
  "ex_bars2 = [mk_bar 120 100 110, mk_bar 100 95 98, mk_bar 110 97 99, mk_bar 106 100 105]"

text \<open>The \<^verbatim>\<open>balanced\<close> profile of the source, restricted to the keys of the model.\<close>

definition balanced :: config where
  "balanced = \<lparr>REQUIRE_CONFIRM = True,
     CONFIRM_RULES = [''break_prev_extreme'', ''ema_fast_cross''],
     ATR_MULT_BUFFER = 0.25, MAX_HOLD_M30 = 288, MAX_HOLD_H1 = 144,
     START_CAPITAL = 100000, RISK_PER_TRADE = 0.01, DYNAMIC_DD_RISK = True,
     DD_RISK_STEPS = [(-10, 0.75), (-20, 0.5), (-30, 0.35), (-40, 0.25)],
     USE_VOL_TARGET = False, TARGET_ANNUAL_VOL = 0.25, VOL_WINDOW_TRADES = 40,
     RISK_PER_TRADE_MIN = Some 0.002, RISK_PER_TRADE_MAX = Some 0.02,
     MAX_DRAWDOWN_STOP = Some (-60), SIZE_SHORT_FACTOR = 0.75, SIZE_BY_PROB = True,
     PROB_SIZE_MIN = 0.7, PROB_SIZE_MAX = 1.4, ML_MIN_PASS_RATE_TEST = 0.25,
     USE_ML = True, TRAIN_FRAC = 0.6, OPTIMIZE_ML_THRESHOLD = True\<rparr>"

definition ex_setup :: "real \<Rightarrow> Setup" where
  "ex_setup sr = \<lparr>setup_s = ''W3'', direction_s = UP, start_time = 0, entry_tf_s = ''1h'',
                  zone = (99, 101), stop_ref = sr, tp1_s = 110, tp2_s = 115\<rparr>"

definition run0 :: sim_run where
  "run0 = \<lparr>sim_trades = [], telemetry = (\<lambda>k. 0)\<rparr>"

text \<open>The \<^verbatim>\<open>adaptive\<close> profile of the source, restricted to the keys of the model.\<close>

definition adaptive :: config where
  "adaptive = \<lparr>REQUIRE_CONFIRM = True,
     CONFIRM_RULES = [''break_prev_extreme'', ''ema_fast_cross''],
     ATR_MULT_BUFFER = 0.20, MAX_HOLD_M30 = 384, MAX_HOLD_H1 = 192,
     START_CAPITAL = 100000, RISK_PER_TRADE = 0.008, DYNAMIC_DD_RISK = True,
     DD_RISK_STEPS = [(-5, 0.85), (-10, 0.65), (-15, 0.50), (-20, 0.38), (-25, 0.30)],
     USE_VOL_TARGET = True, TARGET_ANNUAL_VOL = 0.25, VOL_WINDOW_TRADES = 35,
     RISK_PER_TRADE_MIN = Some 0.002, RISK_PER_TRADE_MAX = Some 0.012,
     MAX_DRAWDOWN_STOP = Some (-40), SIZE_SHORT_FACTOR = 0.6, SIZE_BY_PROB = True,
     PROB_SIZE_MIN = 0.8, PROB_SIZE_MAX = 1.35, ML_MIN_PASS_RATE_TEST = 0.25,
     USE_ML = True, TRAIN_FRAC = 0.6, OPTIMIZE_ML_THRESHOLD = True\<rparr>"

text \<open>The \<^verbatim>\<open>balanced\<close> profile with a minimum out-of-sample pass rate of 0.3.\<close>

definition rate30 :: config where
  "rate30 = balanced\<lparr>ML_MIN_PASS_RATE_TEST := 0.3\<rparr>"

text \<open>
  A simulated long trade with the given risk per share, entry time and RSI feature; an
  account four percent below its peak after five losing trades; a model that reads the
  probability off the RSI feature; four out-of-sample candidates; sixteen candidates of
  which ten fall into the training period; a training routine that raises.
\<close>

definition ex_features :: "real \<Rightarrow> feature_vec" where
  "ex_features v = \<lparr>dir_up = 1, setup_W3 = 1, setup_W5 = 0, setup_C = 0, atr_pct = 1,
     ema_fast_slow_pct = 0, price_above_ema_fast = 0, zone_width_pct = 0,
     dist_to_zone_center_pct = 0, rsi = v, hour_sin = 0, hour_cos = 1, dow_sin = 0,
     dow_cos = 1\<rparr>"

definition ex_sim :: "real \<Rightarrow> int \<Rightarrow> real \<Rightarrow> SimTrade" where
  "ex_sim rps t v = \<lparr>entry_tf = ''1h'', entry_idx = 1, exit_idx = 3, entry_t = 105,
     exit_t = 105 + rps, per_share = rps, risk_per_share = rps, setup_t = ''W3'',
     direction_t = ''LONG'', time_in = t, time_out = t, stop_t = 105 - rps, tp1_t = 110,
     tp2_t = 115, mae_r = 0, mfe_r = 1, features = ex_features v, label = 1\<rparr>"

definition ex_account :: account where
  "ex_account = \<lparr>cap = 96000, highest_global = 100000,
     trade_returns = [-0.95, -1.05, -0.95, -1.05, -1], eq_map = Map.empty, trades = []\<rparr>"

definition rsi_model :: model where
  "rsi_model f = rsi f / 100"

definition ex_oos :: "SimTrade list" where
  "ex_oos = map (ex_sim 1 1) [10, 20, 30, 40]"

definition ex_candidates :: "SimTrade list" where
  "ex_candidates = replicate 10 (ex_sim 1 0 50) @ replicate 6 (ex_sim 1 1 50)"

definition no_fit :: "SimTrade list \<Rightarrow> py_error + model" where
  "no_fit train = Inl ValueError"

section \<open>Verified properties\<close>

text \<open>
  Claim C8. For all prices \<open>A\<close> and \<open>B\<close> and both directions, the Fibonacci extension at
  ratio 1.0 is the end point \<open>B\<close> of the leg itself.
\<close>

theorem fib_ext_one: "fib_ext A B d 1.0 = B"
  by (simp add: fib_ext_def)

subsection \<open>Pivot detection\<close>

lemma alternating_snoc:
  "alternating (ps @ [p]) = (alternating ps \<and> (ps = [] \<or> kind (last ps) \<noteq> kind p))"
  by (induction ps rule: alternating.induct) auto

lemma clean_step_alternating:
  assumes "alternating cleaned"
  shows "alternating (clean_step cleaned p)"
proof (cases "cleaned = [] \<or> kind (last cleaned) \<noteq> kind p")
  case True
  with assms show ?thesis
    by (auto simp: clean_step_def alternating_snoc)
next
  case False
  then have ne: "cleaned \<noteq> []" and same: "kind (last cleaned) = kind p"
    by auto
  from ne have split: "cleaned = butlast cleaned @ [last cleaned]"
    by simp
  from assms split have "alternating (butlast cleaned @ [last cleaned])"
    by simp
  then have "alternating (butlast cleaned @ [p])"
    unfolding alternating_snoc using same by simp
  with assms False show ?thesis
    by (simp add: clean_step_def)
qed

lemma clean_alternating:
  "alternating acc \<Longrightarrow> alternating (foldl clean_step acc ps)"
  by (induction ps arbitrary: acc) (simp_all add: clean_step_alternating)

text \<open>
  Claim C4. Whatever the close and volatility arrays are, the pivot list returned by the
  zigzag has no two consecutive pivots of the same kind, and a series of fewer than three
  samples gives the empty list.
\<close>

theorem zigzag_alternating:
  "alternating (zigzag zz_pct zz_atr_mult close atr)
   \<and> (length close < 3 \<longrightarrow> zigzag zz_pct zz_atr_mult close atr = [])"
  by (simp add: zigzag_def Let_def clean_alternating)

theorem zigzag_alternating_witness:
  "length [100, 110 :: real] < 3 \<and> zigzag 0.003 0.8 [100, 110] None = []
   \<and> alternating (zigzag 0.003 0.8 [100, 110, 105, 115] None)"
  using zigzag_alternating [of "0.003" "0.8" "[100, 110]" None]
    zigzag_alternating [of "0.003" "0.8" "[100, 110, 105, 115]" None]
  by simp

subsection \<open>Impulse detection\<close>

text \<open>
  Claim C5. On the six pivots (0,100,L), (1,110,H), (2,105,L), (3,115,H), (4,108,L),
  (5,120,H), with a volatility array that is 1.0 everywhere and a minimum impulse ratio of
  2.0, impulse detection returns exactly one impulse: direction UP, its points those six
  pivots. The array may have any length but zero, where the source raises.
\<close>

theorem detect_impulses_scenario:
  assumes "0 < n"
  shows "detect_impulses 2.0 scenario_pivots close (replicate n (Some 1.0))
         = Inr [\<lparr>direction = UP, points = scenario_pivots\<rparr>]"
proof -
  from assms have at: "replicate n (Some (1.0::real)) ! min 3 (n - 1) = Some 1.0"
    by simp
  from assms have ne: "replicate n (Some (1.0::real)) \<noteq> []"
    by simp
  have stop: "detect_impulses_loop 2.0 scenario_pivots (replicate n (Some 1.0)) 3
                [\<lparr>direction = UP, points = scenario_pivots\<rparr>]
              = Inr [\<lparr>direction = UP, points = scenario_pivots\<rparr>]"
    by (subst detect_impulses_loop.simps) (simp add: scenario_pivots_def)
  have "detect_impulses_loop 2.0 scenario_pivots (replicate n (Some 1.0)) 0 []
        = detect_impulses_loop 2.0 scenario_pivots (replicate n (Some 1.0)) 3
            [\<lparr>direction = UP, points = scenario_pivots\<rparr>]"
    using at ne
    by (subst detect_impulses_loop.simps)
       (simp add: scenario_pivots_def atr_gate_fails_def Let_def)
  with stop show ?thesis
    by (simp add: detect_impulses_def)
qed

theorem detect_impulses_scenario_witness:
  "(0::nat) < 6 \<and> detect_impulses 2.0 scenario_pivots [100, 110, 105, 115, 108, 120]
       (replicate 6 (Some 1.0)) = Inr [\<lparr>direction = UP, points = scenario_pivots\<rparr>]"
  using detect_impulses_scenario [of 6 "[100, 110, 105, 115, 108, 120]"]
  by simp

subsection \<open>Trade simulation\<close>

lemma track_fields:
  "pos (track d entry R r s) = pos s" "stop (track d entry R r s) = stop s"
  "mae s \<le> 0 \<Longrightarrow> mae (track d entry R r s) \<le> 0"
  "0 \<le> mfe s \<Longrightarrow> 0 \<le> mfe (track d entry R r s)"
  by (simp_all add: track_def min_le_iff_disj le_max_iff_disj)

lemma break_even_fields:
  "pos (break_even d entry R s) = pos s" "mae (break_even d entry R s) = mae s"
  "mfe (break_even d entry R s) = mfe s" "extreme (break_even d entry R s) = extreme s"
  by (simp_all add: break_even_def)

lemma take_tp1_fields:
  "mae (take_tp1 d entry tp1 r s) = mae s" "mfe (take_tp1 d entry tp1 r s) = mfe s"
  "extreme (take_tp1 d entry tp1 r s) = extreme s"
  by (simp_all add: take_tp1_def)

lemma exit_check_fields:
  "mae (fst (exit_check d entry tp2 r s)) = mae s" "mfe (fst (exit_check d entry tp2 r s)) = mfe s"
  "stop (fst (exit_check d entry tp2 r s)) = stop s"
  "extreme (fst (exit_check d entry tp2 r s)) = extreme s"
  by (simp_all add: exit_check_def)

lemma break_even_stop:
  "d = UP \<Longrightarrow> entry \<le> stop s \<Longrightarrow> entry \<le> stop (break_even d entry R s)"
  "d = DOWN \<Longrightarrow> stop s \<le> entry \<Longrightarrow> stop (break_even d entry R s) \<le> entry"
  "d = UP \<Longrightarrow> pos s = 1 \<Longrightarrow> R \<le> extreme s - entry \<Longrightarrow> entry \<le> stop (break_even d entry R s)"
  "d = DOWN \<Longrightarrow> pos s = 1 \<Longrightarrow> R \<le> entry - extreme s \<Longrightarrow> stop (break_even d entry R s) \<le> entry"
  by (simp_all add: break_even_def)

lemma take_tp1_stop:
  "d = UP \<Longrightarrow> entry \<le> stop s \<Longrightarrow> entry \<le> stop (take_tp1 d entry tp1 r s)"
  "d = DOWN \<Longrightarrow> stop s \<le> entry \<Longrightarrow> stop (take_tp1 d entry tp1 r s) \<le> entry"
  by (simp_all add: take_tp1_def)

lemma sim_bar_Inr:
  assumes "sim_bar d entry R tp1 tp2 r s = Inr (s', x)"
  shows "s' = fst (exit_check d entry tp2 r
                (take_tp1 d entry tp1 r (break_even d entry R (track d entry R r s))))"
  using assms by (auto simp: sim_bar_def split: if_splits)

lemma sim_bar_total:
  "R \<noteq> 0 \<Longrightarrow> \<exists>s' x. sim_bar d entry R tp1 tp2 r s = Inr (s', x)"
  by (simp add: sim_bar_def)

lemma sim_bar_excursions:
  assumes "sim_bar d entry R tp1 tp2 r s = Inr (s', x)" "mae s \<le> 0" "0 \<le> mfe s"
  shows "mae s' \<le> 0 \<and> 0 \<le> mfe s'"
  using assms(2,3)
  by (simp add: sim_bar_Inr [OF assms(1)] exit_check_fields take_tp1_fields
      break_even_fields track_fields)

lemma sim_bar_stop_kept:
  assumes "sim_bar d entry R tp1 tp2 r s = Inr (s', x)"
  shows "d = UP \<Longrightarrow> entry \<le> stop s \<Longrightarrow> entry \<le> stop s'"
    and "d = DOWN \<Longrightarrow> stop s \<le> entry \<Longrightarrow> stop s' \<le> entry"
  by (simp_all add: sim_bar_Inr [OF assms] exit_check_fields take_tp1_stop
      break_even_stop track_fields)

lemma sim_bar_promotes:
  assumes "sim_bar d entry R tp1 tp2 r s = Inr (s', x)" "pos s = 1"
  shows "d = UP \<Longrightarrow> R \<le> extreme s' - entry \<Longrightarrow> entry \<le> stop s'"
    and "d = DOWN \<Longrightarrow> R \<le> entry - extreme s' \<Longrightarrow> stop s' \<le> entry"
  using assms(2)
  by (simp_all add: sim_bar_Inr [OF assms(1)] exit_check_fields take_tp1_fields take_tp1_stop
      break_even_stop break_even_fields track_fields)

lemma sim_loop_excursions:
  assumes "R \<noteq> 0" "mae s \<le> 0" "0 \<le> mfe s"
  shows "\<exists>s' x. sim_loop d entry R tp1 tp2 df ixs s = Inr (s', x) \<and> mae s' \<le> 0 \<and> 0 \<le> mfe s'"
  using assms
proof (induction ixs arbitrary: s)
  case Nil
  then show ?case by simp
next
  case (Cons i rest)
  from sim_bar_total [OF Cons.prems(1)]
  obtain s1 x1 where step: "sim_bar d entry R tp1 tp2 (df ! i) s = Inr (s1, x1)"
    by blast
  from sim_bar_excursions [OF step Cons.prems(2,3)]
  have ex: "mae s1 \<le> 0" "0 \<le> mfe s1" by simp_all
  show ?case
  proof (cases x1)
    case None
    from Cons.IH [OF Cons.prems(1) ex] step None show ?thesis by simp
  next
    case (Some px)
    with step ex show ?thesis by simp
  qed
qed

lemma sim_trace_step:
  assumes "Suc k < length (s # sim_trace d entry R tp1 tp2 df ixs s)"
  shows "\<exists>r x. sim_bar d entry R tp1 tp2 r ((s # sim_trace d entry R tp1 tp2 df ixs s) ! k)
            = Inr ((s # sim_trace d entry R tp1 tp2 df ixs s) ! Suc k, x)"
  using assms
proof (induction ixs arbitrary: s k)
  case Nil
  then show ?case by simp
next
  case (Cons i rest)
  show ?case
  proof (cases "sim_bar d entry R tp1 tp2 (df ! i) s")
    case (Inl e)
    with Cons.prems show ?thesis by simp
  next
    case (Inr sx)
    obtain s1 x1 where sx: "sx = (s1, x1)" by (cases sx)
    show ?thesis
    proof (cases x1)
      case (Some px)
      with Inr sx Cons.prems have "k = 0" by simp
      with Inr sx Some show ?thesis by auto
    next
      case None
      show ?thesis
      proof (cases k)
        case 0
        with Inr sx None show ?thesis by auto
      next
        case (Suc k')
        with Cons.prems Inr sx None
        have "Suc k' < length (s1 # sim_trace d entry R tp1 tp2 df rest s1)" by simp
        from Cons.IH [OF this] Inr sx None Suc show ?thesis by simp
      qed
    qed
  qed
qed

lemma sim_bar_locked:
  assumes "sim_bar d entry R tp1 tp2 r s = Inr (s', x)" "stop_locked d entry s"
  shows "stop_locked d entry s'"
  using assms(2) sim_bar_stop_kept [OF assms(1)]
  by (cases d) (simp_all add: stop_locked_def)

lemma sim_bar_locks:
  assumes "sim_bar d entry R tp1 tp2 r s = Inr (s', x)" "pos s = 1" "reached_1R d entry R s'"
  shows "stop_locked d entry s'"
  using assms(3) sim_bar_promotes [OF assms(1,2)]
  by (cases d) (simp_all add: stop_locked_def reached_1R_def)

lemma trace_locked:
  assumes "Suc k \<le> j"
    and "stop_locked d entry ((s # sim_trace d entry R tp1 tp2 df ixs s) ! Suc k)"
  shows "j < length (s # sim_trace d entry R tp1 tp2 df ixs s)
         \<longrightarrow> stop_locked d entry ((s # sim_trace d entry R tp1 tp2 df ixs s) ! j)"
  using assms(1)
proof (induction j rule: dec_induct)
  case base
  from assms(2) show ?case by simp
next
  case (step n)
  show ?case
  proof
    assume len: "Suc n < length (s # sim_trace d entry R tp1 tp2 df ixs s)"
    from sim_trace_step [OF len] obtain r x where
      st: "sim_bar d entry R tp1 tp2 r ((s # sim_trace d entry R tp1 tp2 df ixs s) ! n)
            = Inr ((s # sim_trace d entry R tp1 tp2 df ixs s) ! Suc n, x)" by blast
    from len step.IH
    have "stop_locked d entry ((s # sim_trace d entry R tp1 tp2 df ixs s) ! n)" by simp
    from sim_bar_locked [OF st this] show
      "stop_locked d entry ((s # sim_trace d entry R tp1 tp2 df ixs s) ! Suc n)" .
  qed
qed

text \<open>The trace ends in the state the loop ends in.\<close>

lemma sim_loop_last_state:
  assumes "sim_loop d entry R tp1 tp2 df ixs s = Inr (s', x)"
  shows "last (s # sim_trace d entry R tp1 tp2 df ixs s) = s'"
  using assms
proof (induction ixs arbitrary: s)
  case Nil
  then show ?case by simp
next
  case (Cons i rest)
  show ?case
  proof (cases "sim_bar d entry R tp1 tp2 (df ! i) s")
    case (Inl e)
    with Cons.prems show ?thesis by simp
  next
    case (Inr sx)
    obtain s1 x1 where sx: "sx = (s1, x1)" by (cases sx)
    show ?thesis
    proof (cases x1)
      case None
      with Cons.prems Inr sx have "sim_loop d entry R tp1 tp2 df rest s1 = Inr (s', x)"
        by simp
      from Cons.IH [OF this] Inr sx None show ?thesis by simp
    next
      case (Some px)
      with Cons.prems Inr sx show ?thesis by simp
    qed
  qed
qed

lemma ex_states:
  "simulate_states ex_bars 0 100 UP 95 110 115 10 =
     [\<lparr>pos = 1, realized = 0, stop = 95, extreme = 100, mae = 0, mfe = 0\<rparr>,
      \<lparr>pos = 1, realized = 0, stop = 100, extreme = 106, mae = 0, mfe = 6/5\<rparr>,
      \<lparr>pos = 1, realized = 0, stop = 100, extreme = 106, mae = 0, mfe = 6/5\<rparr>,
      \<lparr>pos = 1, realized = 0, stop = 100, extreme = 106, mae = -1/5, mfe = 6/5\<rparr>]"
  by (simp add: simulate_states_def sim_end_def ex_bars_def mk_bar_def sim_init_def
      upt_conv_Cons sim_bar_def exit_check_def take_tp1_def break_even_def track_def)


text \<open>
  Claim C3. In one run of the simulator, let the local variables be recorded before the
  first bar and after every bar processed. If the position is still full before some bar and
  the running favourable extreme after that bar is at least 1R beyond the entry (so that the
  stop is promoted there), then at that bar and at every later bar of the run the stop is not
  below the entry price for a long trade, and not above it for a short trade.
\<close>

theorem break_even_monotone:
  assumes sts: "sts = simulate_states df entry_i entry d stop0 tp1 tp2 max_bars"
    and kj: "Suc k \<le> j" "j < length sts"
    and full: "pos (sts ! k) = 1"
    and reached: "reached_1R d entry \<bar>entry - stop0\<bar> (sts ! Suc k)"
  shows "stop_locked d entry (sts ! j)"
proof -
  from kj have len: "Suc k < length sts" by simp
  from sim_trace_step [OF len [unfolded sts simulate_states_def]] obtain r x where
    "sim_bar d entry \<bar>entry - stop0\<bar> tp1 tp2 r (sts ! k) = Inr (sts ! Suc k, x)"
    unfolding sts simulate_states_def by blast
  from sim_bar_locks [OF this full reached] have "stop_locked d entry (sts ! Suc k)" .
  from trace_locked [OF kj(1) this [unfolded sts simulate_states_def]] kj(2)
  show ?thesis
    unfolding sts simulate_states_def by simp
qed


theorem break_even_monotone_witness:
  "Suc 0 \<le> 3 \<and> 3 < length (simulate_states ex_bars 0 100 UP 95 110 115 10)
   \<and> pos (simulate_states ex_bars 0 100 UP 95 110 115 10 ! 0) = 1
   \<and> reached_1R UP 100 \<bar>100 - 95\<bar> (simulate_states ex_bars 0 100 UP 95 110 115 10 ! Suc 0)
   \<and> stop (simulate_states ex_bars 0 100 UP 95 110 115 10 ! 0) < 100
   \<and> stop_locked UP 100 (simulate_states ex_bars 0 100 UP 95 110 115 10 ! 3)"
  using break_even_monotone [OF refl, of 0 3 ex_bars 0 100 UP 95 110 115 10]
  by (simp add: ex_states reached_1R_def)

lemma simulate_returns:
  assumes "entry \<noteq> stop0" "df \<noteq> []"
  shows "\<exists>i px rl m f. simulate df entry_i entry d stop0 tp1 tp2 max_bars = Inr (i, px, rl, m, f)
           \<and> m \<le> 0 \<and> 0 \<le> f"
proof -
  from assms(1) have R: "\<bar>entry - stop0\<bar> \<noteq> 0" by simp
  have init: "mae (sim_init entry stop0) \<le> 0" "0 \<le> mfe (sim_init entry stop0)"
    by (simp_all add: sim_init_def)
  from sim_loop_excursions [OF R init]
  obtain s x where loop: "sim_loop d entry \<bar>entry - stop0\<bar> tp1 tp2 df
      [entry_i + 1 ..< sim_end df entry_i max_bars + 1] (sim_init entry stop0) = Inr (s, x)"
    and ex: "mae s \<le> 0" "0 \<le> mfe s"
    by blast
  show ?thesis
  proof (cases x)
    case None
    with loop ex assms R show ?thesis
      by (simp add: simulate_def Let_def le_max_iff_disj)
  next
    case (Some ip)
    with loop ex show ?thesis
      by (cases ip) (simp add: simulate_def Let_def)
  qed
qed


text \<open>
  Claim C9, as stated, fails when the entry price equals the stop: the first division by
  \<open>R = 0\<close> raises and the simulator returns nothing.
\<close>

theorem simulate_zero_risk_raises:
  "simulate ex_bars 0 100 UP 100 110 115 10 = Inl ZeroDivisionError"
  by (simp add: simulate_def sim_end_def ex_bars_def sim_init_def upt_conv_Cons sim_bar_def)

text \<open>
  Claim C9, amended. For every non-empty bar frame, entry index, direction, targets and
  max-hold count, and every entry price different from the stop, the simulator returns a
  result, and in it MAE\_R is at most zero and MFE\_R is at least zero.
\<close>

theorem simulate_excursions:
  assumes "entry \<noteq> stop0" "df \<noteq> []"
  shows "\<exists>i px rl m f. simulate df entry_i entry d stop0 tp1 tp2 max_bars = Inr (i, px, rl, m, f)
           \<and> m \<le> 0 \<and> 0 \<le> f"
  using assms by (rule simulate_returns)

theorem simulate_excursions_witness:
  "(100::real) \<noteq> 95 \<and> ex_bars \<noteq> []
   \<and> (\<exists>i px rl m f. simulate ex_bars 0 100 UP 95 110 115 10 = Inr (i, px, rl, m, f)
         \<and> m \<le> 0 \<and> 0 \<le> f)"
  using simulate_excursions [of 100 95 ex_bars 0 UP 110 115 10]
  by (simp add: ex_bars_def)

subsection \<open>Entry confirmation\<close>

lemma confirm_scan_find:
  "confirm_scan rules df d (high ref) (low ref) ixs
   = find (\<lambda>i. bar_confirms rules d ref (df ! i)) ixs"
  by (induction ixs) (auto simp: bar_confirms_def Let_def)


lemma prev_index_eq: "prev_index touch_i = touch_i - 1"
  by (simp add: prev_index_def)

text \<open>
  Claim C10. With confirmation required, entry confirmation returns the first bar of the
  window from the touch bar to \<open>end\<close> that satisfies the rules against one fixed reference
  bar: the bar at index \<open>touch_i - 1\<close>, immediately before the touch bar (bar 0 when the
  touch bar is the first bar). When no bar of the window does, it returns \<open>end\<close> or
  nothing, as the fallback flag says. The reference does not depend on the candidate bar.
\<close>

theorem confirm_idx_fixed_reference:
  assumes "REQUIRE_CONFIRM cfg" "touch_i - 1 < length df"
  shows "confirm_idx cfg df touch_i d bars allow_touch
         = Inr (confirm_fixed_reference cfg df touch_i d bars allow_touch)"
  using assms
  by (simp add: confirm_idx_def confirm_fixed_reference_def Let_def confirm_scan_find
      prev_index_eq split: option.splits)

text \<open>
  The touch bar is bar 2. Bar 3 closes at 105: above the high 100 of bar 1, so it confirms;
  not above the high 120 of bar 0, nor above the high 110 of its own predecessor, bar 2.
  With the touch bar at index 0 the reference is bar 0 and no bar closes above its high.
\<close>

theorem confirm_idx_fixed_reference_witness:
  "REQUIRE_CONFIRM balanced \<and> (2::nat) - 1 < length ex_bars2
   \<and> confirm_idx balanced ex_bars2 2 UP 2 False = Inr (Some 3)
   \<and> confirm_fixed_reference balanced ex_bars2 2 UP 2 False = Some 3
   \<and> (0::nat) - 1 < length ex_bars2
   \<and> confirm_idx balanced ex_bars2 0 UP 3 False = Inr None"
  using confirm_idx_fixed_reference [of balanced 2 ex_bars2 UP 2 False]
    confirm_idx_fixed_reference [of balanced 0 ex_bars2 UP 3 False]
  by (simp add: balanced_def ex_bars2_def confirm_fixed_reference_def
      bar_confirms_def mk_bar_def upt_conv_Cons)

text \<open>
  On the first input the own-predecessor reading confirms no bar.
\<close>

lemma confirm_idx_not_own_predecessor:
  "confirm_own_predecessor balanced ex_bars2 2 UP 2 False = None"
  by (simp add: balanced_def ex_bars2_def confirm_own_predecessor_def
      bar_confirms_def mk_bar_def upt_conv_Cons)

subsection \<open>Discarding entries without risk\<close>

lemma ex_rps: "rps_for balanced ex_bars (ex_setup sr) (Suc 0) = \<bar>105 - (sr - 1/4)\<bar>"
  by (simp add: rps_for_def stop_for_def balanced_def ex_bars_def ex_setup_def mk_bar_def)


text \<open>
  Claim C6, as stated, fails twice. An entry whose risk per share is exactly zero is
  discarded and the run state, telemetry included, is returned as it was: no counter
  records the discard. And an entry with a positive risk per share of 5e-10 is discarded
  too.
\<close>

theorem discard_not_counted:
  "rps_for balanced ex_bars (ex_setup 105.25) 1 = 0
   \<and> simulate_confirmed balanced ex_bars (ex_setup 105.25) 1 run0 = Inr run0
   \<and> 0 < rps_for balanced ex_bars (ex_setup (105.25 + 5 / 10 ^ 10)) 1
   \<and> simulate_confirmed balanced ex_bars (ex_setup (105.25 + 5 / 10 ^ 10)) 1 run0 = Inr run0"
  by (simp add: simulate_confirmed_def ex_rps) (simp add: ex_bars_def)


text \<open>
  Claim C6, amended. A confirmed entry is discarded before simulation exactly when its risk
  per share \<open>|entry - stop|\<close> is at most 1e-9. The discard raises nothing and leaves the
  list of simulated trades and every telemetry counter as they were. Any other confirmed
  entry is simulated and appended, and counted under \<open>accepted\<close>.
\<close>

theorem confirmed_entry_discard:
  assumes "e_idx < length df"
  shows "(rps_for cfg df sp e_idx \<le> 1 / 10 ^ 9 \<longrightarrow> simulate_confirmed cfg df sp e_idx st = Inr st)
       \<and> (rps_for cfg df sp e_idx > 1 / 10 ^ 9 \<longrightarrow>
            (\<exists>t. simulate_confirmed cfg df sp e_idx st
                   = Inr \<lparr>sim_trades = sim_trades st @ [t],
                          telemetry = (telemetry st)(''accepted'' := telemetry st ''accepted'' + 1)\<rparr>
                 \<and> entry_idx t = e_idx \<and> risk_per_share t = rps_for cfg df sp e_idx))"
proof (intro conjI impI)
  assume "rps_for cfg df sp e_idx \<le> 1 / 10 ^ 9"
  with assms show "simulate_confirmed cfg df sp e_idx st = Inr st"
    by (simp add: simulate_confirmed_def Let_def)
next
  assume big: "rps_for cfg df sp e_idx > 1 / 10 ^ 9"
  then have "rps_for cfg df sp e_idx \<noteq> 0" by auto
  then have ne: "close_b (df ! e_idx) \<noteq> stop_for cfg df sp e_idx"
    by (simp add: rps_for_def)
  from assms have "df \<noteq> []" by auto
  from simulate_returns [OF ne this]
  obtain i px rl m f where
    "simulate df e_idx (close_b (df ! e_idx)) (direction_s sp) (stop_for cfg df sp e_idx)
       (tp1_s sp) (tp2_s sp)
       (if entry_tf_s sp = ''30m'' then MAX_HOLD_M30 cfg else MAX_HOLD_H1 cfg)
     = Inr (i, px, rl, m, f)"
    by blast
  with assms big show "\<exists>t. simulate_confirmed cfg df sp e_idx st
                   = Inr \<lparr>sim_trades = sim_trades st @ [t],
                          telemetry = (telemetry st)(''accepted'' := telemetry st ''accepted'' + 1)\<rparr>
                 \<and> entry_idx t = e_idx \<and> risk_per_share t = rps_for cfg df sp e_idx"
    by (simp add: simulate_confirmed_def Let_def)
qed

theorem confirmed_entry_discard_witness:
  "1 < length ex_bars
   \<and> rps_for balanced ex_bars (ex_setup 105.25) 1 \<le> 1 / 10 ^ 9
   \<and> simulate_confirmed balanced ex_bars (ex_setup 105.25) 1 run0 = Inr run0
   \<and> rps_for balanced ex_bars (ex_setup 95.25) 1 > 1 / 10 ^ 9
   \<and> (\<exists>t. simulate_confirmed balanced ex_bars (ex_setup 95.25) 1 run0
            = Inr \<lparr>sim_trades = sim_trades run0 @ [t],
                   telemetry = (telemetry run0)(''accepted'' := telemetry run0 ''accepted'' + 1)\<rparr>
          \<and> entry_idx t = 1 \<and> risk_per_share t = rps_for balanced ex_bars (ex_setup 95.25) 1)"
  using confirmed_entry_discard [of 1 ex_bars balanced "ex_setup 105.25" run0]
    confirmed_entry_discard [of 1 ex_bars balanced "ex_setup 95.25" run0]
  by (simp add: ex_rps) (simp add: ex_bars_def)

subsection \<open>Classifier fail-open\<close>

lemma equity_loop_no_model:
  "equity_loop cfg h1 None threshold train_until sims a
   = add_all cfg h1 threshold (map (\<lambda>st. (st, None)) sims) a"
  by (induction sims arbitrary: a) (auto split: sum.splits)

lemma ex_sim_fields:
  "risk_per_share (ex_sim rps t v) = rps" "direction_t (ex_sim rps t v) = ''LONG''"
  "time_in (ex_sim rps t v) = t" "features (ex_sim rps t v) = ex_features v"
  by (simp_all add: ex_sim_def)

lemma ex_candidates_times:
  "map time_in ex_candidates = replicate 10 0 @ replicate 6 1"
  by (simp add: ex_candidates_def ex_sim_fields)

lemma ex_train_until: "train_until_of balanced ex_candidates = Inr 0"
  by (simp add: train_until_of_def ex_candidates_times balanced_def py_int_def Let_def)
     (simp add: eval_nat_numeral)

lemma ex_train: "length (filter (\<lambda>t. time_in t \<le> 0) ex_candidates) = 10"
  by (simp add: ex_candidates_def ex_sim_fields)

text \<open>
  Claim C7. When the training part of the simulated candidates (those entered up to the
  split time) has fewer than 20 members, no classifier is trained: the model is absent and
  the threshold is 0.5, whatever the training routine would do. The run then accounts every
  candidate, of the training period and out of sample alike, in order and with no
  probability, so none is held back by a probability gate.
\<close>

theorem classifier_fail_open:
  assumes "sims \<noteq> []" "train_until_of cfg sims = Inr tu"
    and "length (filter (\<lambda>t. time_in t \<le> tu) sims) < 20"
  shows "run_ml cfg fit sims tu = Inr (None, 0.5)
       \<and> run cfg fit h1 sims
         = (case add_all cfg h1 0.5 (map (\<lambda>st. (st, None)) sims) (account0 cfg) of
              Inl e \<Rightarrow> Inl e
            | Inr a \<Rightarrow> Inr (Some a))"
proof -
  from assms(3) have ml: "run_ml cfg fit sims tu = Inr (None, 0.5)"
    by (simp add: run_ml_def Let_def)
  have "build_equity cfg h1 None 0.5 tu sims
        = add_all cfg h1 0.5 (map (\<lambda>st. (st, None)) sims) (account0 cfg)"
    by (simp add: build_equity_def pass_rate_guard_def equity_loop_no_model)
  with ml assms(1,2) show ?thesis
    by (simp add: run_def)
qed

theorem classifier_fail_open_witness:
  "ex_candidates \<noteq> [] \<and> train_until_of balanced ex_candidates = Inr 0
   \<and> length (filter (\<lambda>t. time_in t \<le> 0) ex_candidates) < 20
   \<and> run_ml balanced no_fit ex_candidates 0 = Inr (None, 0.5)
   \<and> run balanced no_fit ex_bars ex_candidates
       = (case add_all balanced ex_bars 0.5 (map (\<lambda>st. (st, None)) ex_candidates)
                 (account0 balanced) of
            Inl e \<Rightarrow> Inl e
          | Inr a \<Rightarrow> Inr (Some a))"
  using classifier_fail_open [of ex_candidates balanced 0 no_fit ex_bars]
  by (simp add: ex_train_until ex_train) (simp add: ex_candidates_def)

subsection \<open>Risk sizing\<close>

lemma sqrt_400: "sqrt (1 / 400) = 1 / 20"
  by (rule real_sqrt_unique) (simp_all add: power2_eq_square)

lemma ex_vol: "vol_adjustment adaptive (trade_returns ex_account) = 1.25"
  by (simp add: vol_adjustment_def adaptive_def ex_account_def np_std1_def power2_eq_square sqrt_400)

lemma ex_dd: "risk_multiplier_for_dd adaptive (dd_percent (cap ex_account) (highest_global ex_account)) = 1"
  by (simp add: risk_multiplier_for_dd_def adaptive_def ex_account_def dd_percent_def)

lemma ex_eff: "eff_risk adaptive ex_account = 0.01"
  by (simp add: eff_risk_def ex_vol ex_dd) (simp add: adaptive_def)

lemma adaptive_fields:
  "RISK_PER_TRADE_MIN adaptive = Some (1 / 500)" "RISK_PER_TRADE_MAX adaptive = Some (3 / 250)"
  "SIZE_SHORT_FACTOR adaptive = 3 / 5" "SIZE_BY_PROB adaptive"
  "PROB_SIZE_MIN adaptive = 4 / 5" "PROB_SIZE_MAX adaptive = 27 / 20"
  "MAX_DRAWDOWN_STOP adaptive = Some (- 40)"
  by (simp_all add: adaptive_def)

lemma ex_account_fields:
  "cap ex_account = 96000" "highest_global ex_account = 100000"
  by (simp_all add: ex_account_def)

lemma ex_size: "position_size adaptive (1 / 2) (ex_sim 7 0 50) (Some 1) ex_account = 185"
  by (simp add: position_size_def ex_eff prob_scale_def py_int_def adaptive_fields
      ex_sim_fields ex_account_fields)

text \<open>
  Claim C1, as stated, fails. Under the \<^verbatim>\<open>adaptive\<close> profile, with the band [0.002, 0.012],
  an account at 96000 below a peak of 100000 and five recent R-multiples of deviation 0.05,
  a long trade with risk per share 7 and probability 1 at threshold 0.5 is not refused; the
  clamped risk fraction is 0.01, the probability scale 1.35 is applied to the size after
  the clamp, and the 185 shares carry 185 * 7 / 96000 of the capital, more than 0.012.
\<close>

theorem sized_risk_leaves_band:
  "RISK_PER_TRADE_MIN adaptive = Some 0.002 \<and> RISK_PER_TRADE_MAX adaptive = Some 0.012
   \<and> \<not> hard_stop adaptive ex_account
   \<and> eff_risk adaptive ex_account = 0.01
   \<and> position_size adaptive 0.5 (ex_sim 7 0 50) (Some 1) ex_account = 185
   \<and> sized_risk adaptive 0.5 (ex_sim 7 0 50) (Some 1) ex_account > 0.012"
  by (simp add: sized_risk_def ex_size ex_eff adaptive_fields ex_sim_fields ex_account_fields
      hard_stop_def max_drawdown_stop_def dd_percent_def)

text \<open>
  Claim C1, amended. For every account state, and so for every drawdown-tier and
  volatility-target multiplier, the risk fraction \<^verbatim>\<open>eff_risk\<close> from which the size is
  computed lies within the configured band, provided the lower bound does not exceed the
  upper one.
\<close>

theorem eff_risk_in_band:
  assumes "RISK_PER_TRADE_MIN cfg = Some lo" "RISK_PER_TRADE_MAX cfg = Some hi" "lo \<le> hi"
  shows "lo \<le> eff_risk cfg a \<and> eff_risk cfg a \<le> hi"
  using assms by (simp add: eff_risk_def Let_def)

theorem eff_risk_in_band_witness:
  "RISK_PER_TRADE_MIN adaptive = Some 0.002 \<and> RISK_PER_TRADE_MAX adaptive = Some 0.012
   \<and> (0.002::real) \<le> 0.012
   \<and> 0.002 \<le> eff_risk adaptive ex_account \<and> eff_risk adaptive ex_account \<le> 0.012"
  using eff_risk_in_band [of adaptive "0.002" "0.012" ex_account]
  by (simp add: adaptive_fields)

subsection \<open>Pass-rate guard\<close>

lemma rate30_field: "ML_MIN_PASS_RATE_TEST rate30 = 3 / 10"
  by (simp add: rate30_def)

lemma ex_probs: "map (\<lambda>t. rsi_model (features t)) ex_oos = [1 / 10, 1 / 5, 3 / 10, 2 / 5]"
  by (simp add: ex_oos_def ex_sim_fields ex_features_def rsi_model_def)

lemma ex_oos_filter: "filter (\<lambda>t. 0 < time_in t) ex_oos = ex_oos" "ex_oos \<noteq> []"
  by (simp_all add: ex_oos_def ex_sim_fields)

lemma ex_quantile: "quantile [1 / 10, 1 / 5, 3 / 10, 2 / 5] (7 / 10) = Inr (31 / 100)"
  by (simp add: quantile_def)

lemma pass_rate_guard_never_raises:
  assumes "pass_rate_guard cfg mdl threshold train_until sims = Inr t"
  shows "t \<le> threshold"
  using assms
  by (auto simp: pass_rate_guard_def Let_def split: option.splits if_splits sum.splits)

text \<open>
  With a minimum pass rate of one quarter the interpolated quantile at 3/4 never exceeds
  the order statistic above which a quarter of the candidates lie.
\<close>

lemma length_filter_mono:
  assumes "\<And>x. P x \<Longrightarrow> Q x"
  shows "length (filter P xs) \<le> length (filter Q xs)"
  using assms by (induction xs) auto

lemma count_ge_sorted:
  assumes "sorted xs" "k < length xs" "v \<le> xs ! k"
  shows "length xs - k \<le> length (filter (\<lambda>p. v \<le> p) xs)"
proof -
  have all: "\<forall>x \<in> set (drop k xs). v \<le> x"
  proof
    fix x assume "x \<in> set (drop k xs)"
    then obtain j where j: "j < length (drop k xs)" "x = drop k xs ! j"
      by (auto simp: in_set_conv_nth)
    then have "x = xs ! (k + j)" "k + j < length xs" by auto
    with assms(1) have "xs ! k \<le> x"
      by (simp add: sorted_nth_mono)
    with assms(3) show "v \<le> x" by simp
  qed
  have "length (filter (\<lambda>p. v \<le> p) xs)
        = length (filter (\<lambda>p. v \<le> p) (take k xs)) + length (filter (\<lambda>p. v \<le> p) (drop k xs))"
    by (metis append_take_drop_id filter_append length_append)
  also from all have "filter (\<lambda>p. v \<le> p) (drop k xs) = drop k xs"
    by (simp add: filter_id_conv)
  finally show ?thesis by simp
qed

lemma count_sort: "length (filter P (sort xs)) = length (filter P xs)"
  by (simp add: filter_sort)

lemma fl: "\<lfloor>3 * real k / 4\<rfloor> = int ((3 * k) div 4)"
proof -
  have "3 * real k / 4 = real (3 * k) / real 4" by simp
  then show ?thesis
    by (simp only: floor_divide_of_nat_eq)
qed

lemma three_k_upper: "(3::nat) * k \<le> 4 * ((3 * k) div 4) + 4"
proof -
  have "4 * ((3 * k) div 4) + (3 * k) mod 4 = 3 * k" by (rule mult_div_mod_eq)
  moreover have "(3 * k) mod 4 < 4" by simp
  ultimately show ?thesis by linarith
qed

lemma three_k_lower: "4 * ((3 * k) div 4) \<le> (3::nat) * k"
  by simp

lemma three_k_exact: "(k::nat) mod 4 = 0 \<Longrightarrow> 4 * ((3 * k) div 4) = 3 * k"
proof -
  assume "k mod 4 = 0"
  then have "4 dvd k" by (simp add: dvd_eq_mod_eq_0)
  then have "4 dvd 3 * k" by simp
  then show ?thesis by simp
qed

lemma three_k_strict: "(k::nat) mod 4 \<noteq> 0 \<Longrightarrow> 4 * ((3 * k) div 4) < 3 * k"
proof -
  assume nz: "k mod 4 \<noteq> 0"
  have "k mod 4 < 4" by simp
  with nz consider "k mod 4 = 1" | "k mod 4 = 2" | "k mod 4 = 3" by linarith
  then have m: "(3 * (k mod 4)) mod 4 \<noteq> 0" by cases simp_all
  have "(3 * k) mod 4 = (3 * (k mod 4)) mod 4" by (simp add: mod_mult_right_eq)
  with m have "(3 * k) mod 4 \<noteq> 0" by simp
  moreover have "4 * ((3 * k) div 4) + (3 * k) mod 4 = 3 * k" by (rule mult_div_mod_eq)
  ultimately show ?thesis by linarith
qed

lemma cnt_arith0: "(k::nat) mod 4 = 0 \<Longrightarrow> k + 1 \<le> 4 * (k + 1 - (3 * k) div 4)"
proof -
  assume "k mod 4 = 0"
  from three_k_exact [OF this] show ?thesis by linarith
qed

lemma cnt_arith: "(k::nat) mod 4 \<noteq> 0 \<Longrightarrow> k + 1 \<le> 4 * (k + 1 - min ((3 * k) div 4 + 1) k)"
proof -
  assume "k mod 4 \<noteq> 0"
  from three_k_strict [OF this] show ?thesis by linarith
qed


lemma div_hi: "3 * real k / 4 - real ((3 * k) div 4) \<le> 1"
proof -
  from three_k_upper [of k] have "real (3 * k) \<le> real (4 * ((3 * k) div 4) + 4)"
    by (simp only: of_nat_le_iff)
  then show ?thesis by simp
qed

lemma div_exact: "k mod 4 = 0 \<Longrightarrow> real ((3 * k) div 4) = 3 * real k / 4"
proof -
  assume "k mod 4 = 0"
  from three_k_exact [OF this] have "real (4 * ((3 * k) div 4)) = real (3 * k)" by simp
  then show ?thesis by simp
qed

lemma quantile_three_quarters:
  fixes a :: "real list"
  assumes "a \<noteq> []" "quantile a (3 / 4) = Inr v"
  shows "length a \<le> 4 * length (filter (\<lambda>p. v \<le> p) a)"
proof -
  define k where "k = length a - 1"
  define srt where "srt = sort a"
  define lo_k where "lo_k = (3 * k) div 4"
  define hi_k where "hi_k = min (lo_k + 1) k"
  from assms(1) have n: "length a = k + 1" by (cases a) (simp_all add: k_def)
  have kk: "length a - Suc 0 = k" by (simp add: k_def)
  from assms(2) assms(1)
  have v: "v = srt ! lo_k + (3 * real k / 4 - real lo_k) * (srt ! hi_k - srt ! lo_k)"
    by (auto simp: quantile_def Let_def kk fl srt_def hi_k_def lo_k_def)
  have srt: "sorted srt" "length srt = k + 1"
    by (simp_all add: srt_def n)
  have lo_le: "lo_k \<le> k" by (simp add: lo_k_def)
  have hi_le: "hi_k \<le> k" "lo_k \<le> hi_k" by (simp_all add: hi_k_def lo_le)
  have cnt: "length (filter (\<lambda>p. v \<le> p) a) = length (filter (\<lambda>p. v \<le> p) srt)"
    by (simp add: srt_def count_sort)
  show ?thesis
  proof (cases "k mod 4 = 0")
    case True
    from div_exact [OF True] have "real lo_k = 3 * real k / 4" by (simp add: lo_k_def)
    with v have le: "v \<le> srt ! lo_k" by simp
    from lo_le srt(2) have "lo_k < length srt" by simp
    from count_ge_sorted [OF srt(1) this le] srt(2)
    have "k + 1 - lo_k \<le> length (filter (\<lambda>p. v \<le> p) srt)" by simp
    with cnt_arith0 [OF True] cnt n show ?thesis by (simp add: lo_k_def)
  next
    case False
    from div_hi [of k] have g1: "3 * real k / 4 - real lo_k \<le> 1" by (simp add: lo_k_def)
    from srt(1) hi_le srt(2) have mono: "srt ! lo_k \<le> srt ! hi_k"
      by (simp add: sorted_nth_mono)
    have le: "v \<le> srt ! hi_k"
    proof -
      from mono have "0 \<le> srt ! hi_k - srt ! lo_k" by simp
      with g1 have "(3 * real k / 4 - real lo_k) * (srt ! hi_k - srt ! lo_k)
                    \<le> 1 * (srt ! hi_k - srt ! lo_k)"
        by (rule mult_right_mono)
      with v show ?thesis by simp
    qed
    from hi_le srt(2) have "hi_k < length srt" by simp
    from count_ge_sorted [OF srt(1) this le] srt(2)
    have "k + 1 - hi_k \<le> length (filter (\<lambda>p. v \<le> p) srt)" by simp
    with cnt_arith [OF False] cnt n show ?thesis by (simp add: hi_k_def lo_k_def)
  qed
qed


lemma pass_rate_guard_quarter:
  assumes quarter: "ML_MIN_PASS_RATE_TEST cfg = 1 / 4"
    and guard: "pass_rate_guard cfg (Some m) threshold train_until sims = Inr t"
    and oos: "filter (\<lambda>s. time_in s > train_until) sims \<noteq> []"
  shows "1 / 4 \<le> pass_rate (map (\<lambda>s. m (features s))
                        (filter (\<lambda>s. time_in s > train_until) sims)) t"
proof -
  define probs where
    "probs = map (\<lambda>s. m (features s)) (filter (\<lambda>s. time_in s > train_until) sims)"
  from oos have ne: "probs \<noteq> []" by (simp add: probs_def)
  then have len: "0 < real (length probs)" by simp
  show ?thesis
  proof (cases "pass_rate probs threshold < 1 / 4")
    case False
    with guard oos have "t = threshold"
      by (simp add: pass_rate_guard_def Let_def probs_def quarter)
    with False show ?thesis by (simp add: probs_def)
  next
    case True
    with guard oos obtain v where
      q: "quantile probs (3 / 4) = Inr v" and t: "t = min threshold v"
      by (auto simp: pass_rate_guard_def Let_def probs_def quarter split: sum.splits)
    from quantile_three_quarters [OF ne q]
    have "length probs \<le> 4 * length (filter (\<lambda>p. v \<le> p) probs)" .
    also have "length (filter (\<lambda>p. v \<le> p) probs) \<le> length (filter (\<lambda>p. t \<le> p) probs)"
      by (rule length_filter_mono) (simp add: t)
    finally have "real (length probs) \<le> 4 * real (length (filter (\<lambda>p. t \<le> p) probs))"
      by (metis mult_le_mono2 of_nat_le_iff of_nat_mult of_nat_numeral)
    with len have "1 / 4 \<le> real (length (filter (\<lambda>p. t \<le> p) probs)) / real (length probs)"
      by (simp add: field_simps)
    then show ?thesis by (simp add: pass_rate_def probs_def)
  qed
qed

lemma quantile_returns: "a \<noteq> [] \<Longrightarrow> \<exists>v. quantile a (3 / 4) = Inr v"
  by (simp add: quantile_def Let_def)

lemma balanced_rate: "ML_MIN_PASS_RATE_TEST balanced = 1 / 4"
  by (simp add: balanced_def)

lemma ex_quantile_quarter: "quantile [1 / 10, 1 / 5, 3 / 10, 2 / 5] (3 / 4) = Inr (13 / 40)"
  by (simp add: quantile_def)

lemma ex_guard:
  "pass_rate_guard balanced (Some rsi_model) (1 / 2) 0 ex_oos = Inr (13 / 40)"
  by (simp add: pass_rate_guard_def ex_oos_filter ex_probs pass_rate_def ex_quantile_quarter
      balanced_rate)

text \<open>
  Claim C2. The minimum out-of-sample pass rate \<^verbatim>\<open>ML_MIN_PASS_RATE_TEST\<close> is 0.25 in every
  profile of the source and is assigned nowhere else. With that value, whenever a trained
  classifier exists and the out-of-sample candidate set is not empty, the pass-rate step
  returns a threshold; the share of out-of-sample candidates whose predicted probability is
  at least that threshold is not below the configured minimum; and the threshold returned
  is not above the one the step started from.
\<close>

theorem pass_rate_guarantee:
  assumes quarter: "ML_MIN_PASS_RATE_TEST cfg = 1 / 4"
    and oos: "filter (\<lambda>s. time_in s > train_until) sims \<noteq> []"
  shows "\<exists>t. pass_rate_guard cfg (Some m) threshold train_until sims = Inr t
           \<and> ML_MIN_PASS_RATE_TEST cfg
               \<le> pass_rate (map (\<lambda>s. m (features s))
                     (filter (\<lambda>s. time_in s > train_until) sims)) t
           \<and> t \<le> threshold"
proof -
  from oos have "map (\<lambda>s. m (features s)) (filter (\<lambda>s. time_in s > train_until) sims) \<noteq> []"
    by simp
  from quantile_returns [OF this] obtain v where
    "quantile (map (\<lambda>s. m (features s)) (filter (\<lambda>s. time_in s > train_until) sims)) (3 / 4)
     = Inr v" by blast
  with oos have "\<exists>t. pass_rate_guard cfg (Some m) threshold train_until sims = Inr t"
    by (simp add: pass_rate_guard_def Let_def quarter)
  then obtain t where g: "pass_rate_guard cfg (Some m) threshold train_until sims = Inr t"
    by blast
  from pass_rate_guard_quarter [OF quarter g oos] pass_rate_guard_never_raises [OF g] g
  show ?thesis by (simp add: quarter)
qed

theorem pass_rate_guarantee_witness:
  "ML_MIN_PASS_RATE_TEST balanced = 1 / 4 \<and> filter (\<lambda>s. time_in s > 0) ex_oos \<noteq> []
   \<and> pass_rate_guard balanced (Some rsi_model) (1 / 2) 0 ex_oos = Inr (13 / 40)
   \<and> (\<exists>t. pass_rate_guard balanced (Some rsi_model) (1 / 2) 0 ex_oos = Inr t
         \<and> ML_MIN_PASS_RATE_TEST balanced
             \<le> pass_rate (map (\<lambda>s. rsi_model (features s))
                   (filter (\<lambda>s. time_in s > 0) ex_oos)) t
         \<and> t \<le> 1 / 2)"
  using pass_rate_guarantee [of balanced 0 ex_oos rsi_model "1 / 2"]
  by (simp add: balanced_rate ex_oos_filter ex_guard)

text \<open>
  Remark. The value one quarter matters. With a minimum of 0.3, a value that no profile of
  the source has, a threshold of 0.5 and four out-of-sample candidates of probabilities
  0.1, 0.2, 0.3 and 0.4, the step relaxes the threshold to the interpolated quantile 0.31,
  and one candidate of four passes.
\<close>

lemma pass_rate_at_three_tenths:
  "pass_rate_guard rate30 (Some rsi_model) 0.5 0 ex_oos = Inr 0.31
   \<and> pass_rate (map (\<lambda>t. rsi_model (features t)) ex_oos) 0.31 = 0.25
   \<and> ML_MIN_PASS_RATE_TEST rate30 = 0.3"
  by (simp add: pass_rate_guard_def ex_oos_filter ex_probs pass_rate_def ex_quantile rate30_field)

end
